theory Spec2Isabelle
  imports Main
begin

section \<open>Strings as the scripts use them\<close>

text \<open>
  A JavaScript string is modelled as a \<^typ>\<open>string\<close>; the functions below cover ASCII
  text. Numbers are modelled as unbounded integers (the scripts only count and subtract,
  which is exact on doubles below \<open>2^53\<close>).
\<close>

definition is_digit :: "char \<Rightarrow> bool" where
  "is_digit c = (c \<in> set ''0123456789'')"

definition is_space :: "char \<Rightarrow> bool" where
  \<comment> \<open>the regular-expression class \<^verbatim>\<open>\s\<close> and the characters removed by \<^verbatim>\<open>trim()\<close>\<close>
  "is_space c = (c \<in> {CHR 0x20, CHR 0x09, CHR 0x0A, CHR 0x0B, CHR 0x0C, CHR 0x0D})"

definition trim :: "string \<Rightarrow> string" where
  "trim s = rev (dropWhile is_space (rev (dropWhile is_space s)))"

fun join :: "string \<Rightarrow> string list \<Rightarrow> string" where
  "join sep [] = []"
| "join sep [x] = x"
| "join sep (x # y # ys) = x @ sep @ join sep (y # ys)"

definition digit_char :: "nat \<Rightarrow> char" where
  "digit_char d = ''0123456789'' ! d"

function dec_nat :: "nat \<Rightarrow> string" where
  "dec_nat n = (if n < 10 then [digit_char n] else dec_nat (n div 10) @ [digit_char (n mod 10)])"
  by pat_completeness auto
termination
  by (relation "measure id") auto

declare dec_nat.simps [simp del]

definition dec_int :: "int \<Rightarrow> string" where
  "dec_int i = (if i < 0 then CHR ''-'' # dec_nat (nat (- i)) else dec_nat (nat i))"

section \<open>The delimited-text export\<close>

text \<open>
  \<^verbatim>\<open>convertToCSV(reviews)\<close> accepts any value. A review object is modelled by the list of
  its own properties in the order \<^verbatim>\<open>Object.keys\<close> enumerates them, which for the field
  names of review records is the order of insertion; property values are scalars.
\<close>

datatype scalar = Undefined | Null | Bool bool | Num int | Str string

type_synonym js_object = "(string \<times> scalar) list"

datatype js_value = Prim scalar | Obj js_object | Arr "js_object list"

fun to_String :: "scalar \<Rightarrow> string" where
  "to_String Undefined = ''undefined''"
| "to_String Null = ''null''"
| "to_String (Bool b) = (if b then ''true'' else ''false'')"
| "to_String (Num i) = dec_int i"
| "to_String (Str s) = s"

definition dq :: char where
  "dq = CHR 0x22"

definition nl :: char where
  "nl = CHR 0x0A"

text \<open>\<^verbatim>\<open>review[field] != null ? String(review[field]) : ''\<close>; a missing property reads as
  \<^verbatim>\<open>undefined\<close>.\<close>

definition cell_text :: "js_object \<Rightarrow> string \<Rightarrow> string" where
  "cell_text review field =
     (case map_of review field of
        None \<Rightarrow> []
      | Some Undefined \<Rightarrow> []
      | Some Null \<Rightarrow> []
      | Some v \<Rightarrow> to_String v)"

text \<open>\<^verbatim>\<open>value.replace(/"/g, '""')\<close>\<close>

definition double_quotes :: "string \<Rightarrow> string" where
  "double_quotes v = concat (map (\<lambda>c. if c = dq then [dq, dq] else [c]) v)"

definition quoted :: "string \<Rightarrow> string" where
  "quoted v = [dq] @ double_quotes v @ [dq]"

definition csv_headers :: "js_object list \<Rightarrow> string list" where
  "csv_headers reviews = map fst (hd reviews)"

definition csv_row :: "string list \<Rightarrow> js_object \<Rightarrow> string" where
  "csv_row headers review = join '','' (map (\<lambda>field. quoted (cell_text review field)) headers)"

definition csv_rows :: "js_object list \<Rightarrow> string list" where
  "csv_rows reviews = map (csv_row (csv_headers reviews)) reviews"

fun convertToCSV :: "js_value \<Rightarrow> string" where
  "convertToCSV (Arr (r # rs)) =
     join [nl] (join '','' (csv_headers (r # rs)) # csv_rows (r # rs))"
| "convertToCSV _ = []"

text \<open>The inverse of the quote doubling, reading a doubled quote as one quote.\<close>

fun undouble :: "string \<Rightarrow> string" where
  "undouble (a # b # cs) = (if a = dq \<and> b = dq then dq # undouble cs else a # undouble (b # cs))"
| "undouble cs = cs"

section \<open>Relative and absolute dates\<close>

text \<open>\<^verbatim>\<open>toLowerCase()\<close>, \<^verbatim>\<open>includes()\<close> and \<^verbatim>\<open>parseInt()\<close> on ASCII text. \<^verbatim>\<open>parseInt\<close> skips leading
  white space, reads a sign, then hexadecimal digits after \<^verbatim>\<open>0x\<close> or decimal digits otherwise,
  and yields \<^verbatim>\<open>NaN\<close> (here \<open>None\<close>) when there is no digit.\<close>

definition lower_char :: "char \<Rightarrow> char" where
  "lower_char c =
     (case map_of (zip ''ABCDEFGHIJKLMNOPQRSTUVWXYZ'' ''abcdefghijklmnopqrstuvwxyz'') c of
        Some d \<Rightarrow> d | None \<Rightarrow> c)"

definition toLowerCase :: "string \<Rightarrow> string" where
  "toLowerCase s = map lower_char s"

fun starts_with :: "string \<Rightarrow> string \<Rightarrow> bool" where
  "starts_with s [] = True"
| "starts_with [] (p # ps) = False"
| "starts_with (c # cs) (p # ps) = (c = p \<and> starts_with cs ps)"

fun str_includes :: "string \<Rightarrow> string \<Rightarrow> bool" where
  "str_includes [] sub = (sub = [])"
| "str_includes (c # cs) sub = (starts_with (c # cs) sub \<or> str_includes cs sub)"

definition digit_val :: "char \<Rightarrow> nat" where
  "digit_val c = (case map_of (zip ''0123456789abcdefABCDEF'' [0,1,2,3,4,5,6,7,8,9,10,11,12,13,14,15,10,11,12,13,14,15]) c of Some d \<Rightarrow> d | None \<Rightarrow> 0)"

definition is_hex_digit :: "char \<Rightarrow> bool" where
  "is_hex_digit c = (c \<in> set ''0123456789abcdefABCDEF'')"

definition digits_value :: "nat \<Rightarrow> string \<Rightarrow> nat" where
  "digits_value radix ds = foldl (\<lambda>a c. radix * a + digit_val c) 0 ds"

definition parse_digits :: "int \<Rightarrow> string \<Rightarrow> int option" where
  "parse_digits sign s =
     (if starts_with s ''0x'' \<or> starts_with s ''0X'' then
        (let ds = takeWhile is_hex_digit (drop 2 s)
         in if ds = [] then None else Some (sign * int (digits_value 16 ds)))
      else
        (let ds = takeWhile is_digit s
         in if ds = [] then None else Some (sign * int (digits_value 10 ds))))"

definition parseInt :: "string \<Rightarrow> int option" where
  "parseInt str =
     (case dropWhile is_space str of
        [] \<Rightarrow> None
      | c # cs \<Rightarrow>
          if c = CHR ''-'' then parse_digits (- 1) cs
          else if c = CHR ''+'' then parse_digits 1 cs
          else parse_digits 1 (c # cs))"


text \<open>
  A \<^verbatim>\<open>Date\<close> is modelled by its time value: \<open>Some t\<close> for \<open>t\<close> milliseconds since the epoch,
  \<open>None\<close> for an invalid date. What the scripts ask of the runtime is gathered in a record:
  the local calendar fields of \<^verbatim>\<open>new Date()\<close> (\<^verbatim>\<open>getFullYear()\<close>, \<^verbatim>\<open>getMonth()\<close> from 0,
  \<^verbatim>\<open>getDate()\<close>), the constructor \<^verbatim>\<open>new Date(year, month, date)\<close>, the current instant after
  \<^verbatim>\<open>setDate(n)\<close>, and the constructor \<^verbatim>\<open>new Date(string)\<close>.
\<close>

record host =
  now_year :: int
  now_month :: int
  now_day :: int
  make_date :: "int \<Rightarrow> int \<Rightarrow> int \<Rightarrow> int option"
  set_date :: "int \<Rightarrow> int option"
  parse_date :: "string \<Rightarrow> int option"

text \<open>The comparisons \<^verbatim>\<open>>=\<close>, \<^verbatim>\<open><=\<close> and \<^verbatim>\<open><\<close> of two dates: false as soon as one is invalid.\<close>

definition date_ge :: "int option \<Rightarrow> int option \<Rightarrow> bool" where
  "date_ge a b = (case (a, b) of (Some x, Some y) \<Rightarrow> x \<ge> y | _ \<Rightarrow> False)"

definition date_le :: "int option \<Rightarrow> int option \<Rightarrow> bool" where
  "date_le a b = (case (a, b) of (Some x, Some y) \<Rightarrow> x \<le> y | _ \<Rightarrow> False)"

definition date_lt :: "int option \<Rightarrow> int option \<Rightarrow> bool" where
  "date_lt a b = (case (a, b) of (Some x, Some y) \<Rightarrow> x < y | _ \<Rightarrow> False)"

text \<open>
  The loop \<^verbatim>\<open>while (newMonth < 0) { newMonth += 12; newYear--; }\<close>. In the script \<^verbatim>\<open>newMonth\<close> is
  a double. Here it is an integer, which is the same thing as long as the number parsed is
  below \<open>2 ^ 53\<close>: every value the loop computes is then an integer of that size, and
  doubles hold those exactly. For a number so large that \<^verbatim>\<open>newMonth += 12\<close> rounds back to
  \<^verbatim>\<open>newMonth\<close> the script's loop does not return; the function below says nothing of the
  script there, and the properties of \<^verbatim>\<open><n> months ago\<close> are stated for \<open>n < 2 ^ 53\<close>.
\<close>

function borrow_months :: "int \<Rightarrow> int \<Rightarrow> int \<times> int" where
  "borrow_months newMonth newYear =
     (if newMonth < 0 then borrow_months (newMonth + 12) (newYear - 1) else (newMonth, newYear))"
  by pat_completeness auto
termination
  by (relation "measure (\<lambda>(m, y). nat (- m))") auto

declare borrow_months.simps [simp del]

definition calculateDateFromRelative :: "host \<Rightarrow> string \<Rightarrow> int option" where
  "calculateDateFromRelative h relativeTimeStr =
     (let lowerStr = toLowerCase relativeTimeStr in
      if str_includes lowerStr ''year'' then
        (case parseInt relativeTimeStr of
           None \<Rightarrow> None
         | Some years \<Rightarrow> make_date h (now_year h - years) (now_month h) (now_day h))
      else if str_includes lowerStr ''month'' then
        (case parseInt relativeTimeStr of
           None \<Rightarrow> None
         | Some months \<Rightarrow>
             (case borrow_months (now_month h - months) (now_year h) of
                (newMonth, newYear) \<Rightarrow> make_date h newYear newMonth (now_day h)))
      else if str_includes lowerStr ''day'' then
        (case parseInt relativeTimeStr of
           None \<Rightarrow> None
         | Some days \<Rightarrow> set_date h (now_day h - days))
      else parse_date h relativeTimeStr)"

definition isReviewInDateRange :: "host \<Rightarrow> string \<Rightarrow> string \<Rightarrow> string \<Rightarrow> bool" where
  "isReviewInDateRange h reviewDateStr startDate endDate =
     (let reviewDate = calculateDateFromRelative h reviewDateStr;
          start = parse_date h startDate;
          end = parse_date h endDate
      in date_ge reviewDate start \<and> date_le reviewDate end)"

text \<open>\<^verbatim>\<open>parseDate\<close>: the two patterns \<^verbatim>\<open>^(\d{4})\/(\d{1,2})\/(\d{1,2})$\<close> and
  \<^verbatim>\<open>^(\d{1,2})\/(\d{1,2})\/(\d{4})$\<close> on the trimmed string, then \<^verbatim>\<open>new Date(dateStr)\<close>.\<close>

fun split_on :: "char \<Rightarrow> string \<Rightarrow> string list" where
  "split_on sep [] = [[]]"
| "split_on sep (c # cs) =
     (if c = sep then [] # split_on sep cs
      else (case split_on sep cs of p # ps \<Rightarrow> (c # p) # ps | [] \<Rightarrow> [[c]]))"

definition digits_between :: "nat \<Rightarrow> nat \<Rightarrow> string \<Rightarrow> bool" where
  "digits_between lo hi s = (lo \<le> length s \<and> length s \<le> hi \<and> list_all is_digit s)"

definition to_number :: "string \<Rightarrow> int" where
  "to_number ds = int (digits_value 10 ds)"

definition parseDate :: "host \<Rightarrow> string \<Rightarrow> int option" where
  "parseDate h dateStr0 =
     (let dateStr = trim dateStr0 in
      case split_on CHR ''/'' dateStr of
        [a, b, c] \<Rightarrow>
          if digits_between 4 4 a \<and> digits_between 1 2 b \<and> digits_between 1 2 c then
            make_date h (to_number a) (to_number b - 1) (to_number c)
          else if digits_between 1 2 a \<and> digits_between 1 2 b \<and> digits_between 4 4 c then
            make_date h (to_number c) (to_number a - 1) (to_number b)
          else parse_date h dateStr
      | _ \<Rightarrow> parse_date h dateStr)"

text \<open>A review record: the common fields, and either \<^verbatim>\<open>reviewText\<close> (Capterra, Trustpilot) or
  \<^verbatim>\<open>like\<close>, \<^verbatim>\<open>dislike\<close>, \<^verbatim>\<open>problemsSolved\<close> (G2).\<close>

datatype review_content = ReviewText string | QA string string string

record review =
  reviewerName :: string
  jobTitle :: string
  reviewDate :: string
  stars :: string
  reviewTitle :: string
  content :: review_content

definition filterReviewsByDate :: "host \<Rightarrow> review list \<Rightarrow> string \<Rightarrow> string \<Rightarrow> review list" where
  "filterReviewsByDate h reviews startDateStr endDateStr =
     (let start = parseDate h startDateStr;
          end = parseDate h endDateStr
      in filter (\<lambda>review.
           (let rd = parseDate h (reviewDate review)
            in rd \<noteq> None \<and> date_ge rd start \<and> date_le rd end)) reviews)"

text \<open>
  A concrete host, used to evaluate the functions: the ECMAScript \<^verbatim>\<open>Date\<close> constructor of a
  runtime whose local time zone is UTC. \<^verbatim>\<open>new Date(year, month, date)\<close> maps a year from 0
  to 99 to 1900 + year, carries the month into the year, counts \<^verbatim>\<open>date - 1\<close> days from the
  first of that month (so a day past the end of the month rolls into the next one), and is
  invalid beyond 8.64e15 milliseconds from the epoch.
\<close>
definition days_from_civil :: "int \<Rightarrow> int \<Rightarrow> int \<Rightarrow> int" where
  "days_from_civil y m d =
     (let y' = (if m \<le> 2 then y - 1 else y);
          era = y' div 400;
          yoe = y' - era * 400;
          doy = (153 * ((m + 9) mod 12) + 2) div 5 + d - 1;
          doe = yoe * 365 + yoe div 4 - yoe div 100 + doy
      in era * 146097 + doe - 719468)"

definition utc_make_date :: "int \<Rightarrow> int \<Rightarrow> int \<Rightarrow> int option" where
  "utc_make_date year month date =
     (let yr = (if 0 \<le> year \<and> year \<le> 99 then 1900 + year else year);
          ym = yr + month div 12;
          mn = month mod 12;
          day = days_from_civil ym (mn + 1) 1 + date - 1;
          tv = day * 86400000
      in if \<bar>tv\<bar> \<le> 8640000000000000 then Some tv else None)"

text \<open>Of \<^verbatim>\<open>new Date(string)\<close> the sample host reads the form \<^verbatim>\<open>YYYY-MM-DD\<close> only (midnight UTC).\<close>

definition utc_parse_date :: "string \<Rightarrow> int option" where
  "utc_parse_date s =
     (case split_on CHR ''-'' s of
        [a, b, c] \<Rightarrow>
          if digits_between 4 4 a \<and> digits_between 2 2 b \<and> digits_between 2 2 c
             \<and> 1 \<le> to_number b \<and> to_number b \<le> 12 \<and> 1 \<le> to_number c \<and> to_number c \<le> 31
          then utc_make_date (to_number a) (to_number b - 1) (to_number c)
          else None
      | _ \<Rightarrow> None)"

definition utc_host :: "int \<Rightarrow> int \<Rightarrow> int \<Rightarrow> host" where
  "utc_host y m d =
     \<lparr> now_year = y, now_month = m, now_day = d,
       make_date = utc_make_date,
       set_date = utc_make_date y m,
       parse_date = utc_parse_date \<rparr>"

definition sample_review :: "string \<Rightarrow> review" where
  "sample_review d =
     \<lparr> reviewerName = ''Ann'', jobTitle = [], reviewDate = d, stars = ''5'',
       reviewTitle = [], content = ReviewText ''Good'' \<rparr>"

subsection \<open>The calendar\<close>





section \<open>Regular expressions\<close>

text \<open>
  The regular expressions of the scrapers are written with the combinators below. A matcher
  maps the text at a position to the list of its matches there, each a captured text with
  the text that remains, in the order a backtracking engine tries them: the first match of
  a composed pattern is the match the engine reports. \<open>search\<close> tries the positions from the
  left, as an unanchored \<^verbatim>\<open>match\<close> does.
\<close>

type_synonym 'a matcher = "string \<Rightarrow> ('a \<times> string) list"

definition m_return :: "'a \<Rightarrow> 'a matcher" where
  "m_return x s = [(x, s)]"

definition m_bind :: "'a matcher \<Rightarrow> ('a \<Rightarrow> 'b matcher) \<Rightarrow> 'b matcher" where
  "m_bind m f s = concat (map (\<lambda>(a, rest). f a rest) (m s))"

definition m_seq :: "'a matcher \<Rightarrow> 'b matcher \<Rightarrow> 'b matcher" where
  "m_seq m1 m2 = m_bind m1 (\<lambda>_. m2)"

definition m_keep :: "'a matcher \<Rightarrow> 'b matcher \<Rightarrow> 'a matcher" where
  "m_keep m1 m2 = m_bind m1 (\<lambda>x. m_bind m2 (\<lambda>_. m_return x))"

definition m_cat :: "string matcher \<Rightarrow> string matcher \<Rightarrow> string matcher" where
  "m_cat m1 m2 = m_bind m1 (\<lambda>x. m_bind m2 (\<lambda>y. m_return (x @ y)))"

definition m_alt :: "'a matcher \<Rightarrow> 'a matcher \<Rightarrow> 'a matcher" where
  "m_alt m1 m2 s = m1 s @ m2 s"

fun starts_with_ci :: "string \<Rightarrow> string \<Rightarrow> bool" where
  "starts_with_ci s [] = True"
| "starts_with_ci [] (p # ps) = False"
| "starts_with_ci (c # cs) (p # ps) =
     (if lower_char c = lower_char p then starts_with_ci cs ps else False)"

definition lit :: "string \<Rightarrow> string matcher" where
  "lit w s = (if starts_with s w then [(w, drop (length w) s)] else [])"

definition lit_ci :: "string \<Rightarrow> string matcher" where
  "lit_ci w s = (if starts_with_ci s w then [(take (length w) s, drop (length w) s)] else [])"

definition eos :: "string matcher" where
  "eos s = (if s = [] then [([], [])] else [])"

definition one :: "(char \<Rightarrow> bool) \<Rightarrow> string matcher" where
  "one P s = (case s of [] \<Rightarrow> [] | c # cs \<Rightarrow> if P c then [([c], cs)] else [])"

definition lookahead :: "'a matcher \<Rightarrow> string matcher" where
  "lookahead m s = (if m s = [] then [] else [([], s)])"

definition splits_at :: "nat list \<Rightarrow> string matcher" where
  "splits_at ks s = map (\<lambda>k. (take k s, drop k s)) ks"

definition many_greedy :: "(char \<Rightarrow> bool) \<Rightarrow> string matcher" where
  "many_greedy P s = splits_at (rev [0 ..< Suc (length (takeWhile P s))]) s"

definition many1_greedy :: "(char \<Rightarrow> bool) \<Rightarrow> string matcher" where
  "many1_greedy P s = splits_at (rev [1 ..< Suc (length (takeWhile P s))]) s"

definition many_lazy :: "(char \<Rightarrow> bool) \<Rightarrow> string matcher" where
  "many_lazy P s = splits_at [0 ..< Suc (length (takeWhile P s))] s"

definition many1_lazy :: "(char \<Rightarrow> bool) \<Rightarrow> string matcher" where
  "many1_lazy P s = splits_at [1 ..< Suc (length (takeWhile P s))] s"

definition opt_greedy :: "string matcher \<Rightarrow> string matcher" where
  "opt_greedy m = m_alt m (m_return [])"

primrec star_fuel :: "nat \<Rightarrow> string matcher \<Rightarrow> string matcher" where
  "star_fuel 0 m s = [([], s)]"
| "star_fuel (Suc n) m s =
     concat (map (\<lambda>(a, rest).
        if length rest < length s
        then map (\<lambda>(b, rest'). (a @ b, rest')) (star_fuel n m rest)
        else []) (m s)) @ [([], s)]"

definition star_greedy :: "string matcher \<Rightarrow> string matcher" where
  "star_greedy m s = star_fuel (length s) m s"

definition match_here :: "'a matcher \<Rightarrow> string \<Rightarrow> ('a \<times> string) option" where
  "match_here m s = (case m s of [] \<Rightarrow> None | r # _ \<Rightarrow> Some r)"

fun search :: "'a matcher \<Rightarrow> string \<Rightarrow> 'a option" where
  "search m [] = map_option fst (match_here m [])"
| "search m (c # cs) =
     (case match_here m (c # cs) of Some r \<Rightarrow> Some (fst r) | None \<Rightarrow> search m cs)"

section \<open>The G2 parser\<close>

text \<open>
  The three patterns of \<^verbatim>\<open>parseG2HtmlContent\<close>, all with the flag \<^verbatim>\<open>i\<close>:
  \<^verbatim>\<open>/What do you like best about[^?]*\?\s*([^?]*?)(?=What do you dislike|What problems|$)/\<close>,
  \<^verbatim>\<open>/What do you dislike about[^?]*\?\s*([^?]*?)(?=What problems|What do you like|$)/\<close>,
  \<^verbatim>\<open>/What problems[^?]*\?\s*([^?]*?)(?=What do you like|What do you dislike|$)/\<close>.
\<close>

definition not_q :: "char \<Rightarrow> bool" where
  "not_q c = (c \<noteq> CHR ''?'')"

definition qa_regex :: "string \<Rightarrow> string list \<Rightarrow> string matcher" where
  "qa_regex marker others =
     m_seq (lit_ci marker)
       (m_seq (many_greedy not_q)
         (m_seq (lit ''?'')
           (m_seq (many_greedy is_space)
             (m_keep (many_lazy not_q)
                (lookahead (foldr m_alt (map lit_ci others) eos))))))"

definition likeMatch :: "string \<Rightarrow> string option" where
  "likeMatch reviewText =
     search (qa_regex ''What do you like best about'' [''What do you dislike'', ''What problems'']) reviewText"

definition dislikeMatch :: "string \<Rightarrow> string option" where
  "dislikeMatch reviewText =
     search (qa_regex ''What do you dislike about'' [''What problems'', ''What do you like'']) reviewText"

definition problemsMatch :: "string \<Rightarrow> string option" where
  "problemsMatch reviewText =
     search (qa_regex ''What problems'' [''What do you like'', ''What do you dislike'']) reviewText"

text \<open>\<^verbatim>\<open>if (likeMatch) like = likeMatch[1].trim();\<close> with the initial value \<^verbatim>\<open>""\<close>\<close>

definition answer :: "string option \<Rightarrow> string" where
  "answer m = (case m of None \<Rightarrow> [] | Some g \<Rightarrow> trim g)"


text \<open>
  The cleaning of the review body's text:
  \<^verbatim>\<open>.replace(/^[0-5](?:\.\d+)?\/5/, '')\<close>,
  \<^verbatim>\<open>.replace(/Review collected by and hosted on G2\.com\./g, '')\<close>,
  \<^verbatim>\<open>.replace(/Show More$/, '')\<close>, \<^verbatim>\<open>.replace(/\n+/g, ' ')\<close>, \<^verbatim>\<open>.trim()\<close>.
\<close>

definition rating_prefix :: "string matcher" where
  "rating_prefix =
     m_cat (one (\<lambda>c. c \<in> set ''012345''))
       (m_cat (opt_greedy (m_cat (lit ''.'') (many1_greedy is_digit))) (lit ''/5''))"

definition strip_rating_prefix :: "string \<Rightarrow> string" where
  "strip_rating_prefix s = (case match_here rating_prefix s of None \<Rightarrow> s | Some r \<Rightarrow> snd r)"

text \<open>Removing every occurrence of a literal, left to right: \<open>k\<close> counts the characters of
  the occurrence at hand that are still to be skipped.\<close>

fun remove_all_from :: "string \<Rightarrow> nat \<Rightarrow> string \<Rightarrow> string" where
  "remove_all_from w k [] = []"
| "remove_all_from w k (c # cs) =
     (if 0 < k then remove_all_from w (k - 1) cs
      else if w \<noteq> [] \<and> starts_with (c # cs) w then remove_all_from w (length w - 1) cs
      else c # remove_all_from w 0 cs)"

definition remove_all :: "string \<Rightarrow> string \<Rightarrow> string" where
  "remove_all w s = remove_all_from w 0 s"

definition ends_with :: "string \<Rightarrow> string \<Rightarrow> bool" where
  "ends_with s w = starts_with (rev s) (rev w)"

definition strip_show_more :: "string \<Rightarrow> string" where
  "strip_show_more s =
     (if ends_with s ''Show More'' then take (length s - length ''Show More'') s else s)"

text \<open>Each run of newlines becomes one space; the flag says that the previous character
  was a newline.\<close>

fun collapse_newlines :: "bool \<Rightarrow> string \<Rightarrow> string" where
  "collapse_newlines prev [] = []"
| "collapse_newlines prev (c # cs) =
     (if c = nl then (if prev then collapse_newlines True cs
                      else CHR 0x20 # collapse_newlines True cs)
      else c # collapse_newlines False cs)"

definition clean_review_text :: "string \<Rightarrow> string" where
  "clean_review_text originalReviewText =
     trim (collapse_newlines False (strip_show_more
       (remove_all ''Review collected by and hosted on G2.com.''
          (strip_rating_prefix originalReviewText))))"

text \<open>\<^verbatim>\<open>/(\d+(?:\.\d+)?)\s*\/\s*5/\<close> on the text before cleaning\<close>

definition rating_regex :: "string matcher" where
  "rating_regex =
     m_keep (m_cat (many1_greedy is_digit)
               (opt_greedy (m_cat (lit ''.'') (many1_greedy is_digit))))
       (m_seq (many_greedy is_space)
          (m_seq (lit ''/'') (m_seq (many_greedy is_space) (lit ''5''))))"

text \<open>\<^verbatim>\<open>.replace(/^["']+|["']+$/g, '')\<close>: the quotes at the start and those at the end\<close>

definition is_quote :: "char \<Rightarrow> bool" where
  "is_quote c = (c = dq \<or> c = CHR 0x27)"

definition strip_quotes :: "string \<Rightarrow> string" where
  "strip_quotes s = rev (dropWhile is_quote (rev (dropWhile is_quote s)))"

text \<open>\<^verbatim>\<open>a || b\<close> on strings (the empty string is falsy), and an attribute that may be absent.\<close>

definition or_else :: "string \<Rightarrow> string \<Rightarrow> string" where
  "or_else a b = (if a = [] then b else a)"

definition attr_or_empty :: "string option \<Rightarrow> string" where
  "attr_or_empty a = (case a of None \<Rightarrow> [] | Some v \<Rightarrow> v)"

text \<open>
  The queries of the review loop are not modelled: a review body is given by the texts and
  the attribute that the selectors of \<^verbatim>\<open>parseG2HtmlContent\<close> read from its container. Of the
  chains \<^verbatim>\<open>find(a) || find(b) || find(c)\<close> only the first \<^verbatim>\<open>find\<close> counts, a selection being
  truthy even when empty. On these inputs no statement of the \<^verbatim>\<open>try\<close> block raises.
\<close>

record g2_element =
  name_div_text :: string
  body_text :: string
  reviewer_text :: string
  datetime_attr :: "string option"
  date_text :: string
  job_text :: string

definition g2_review :: "nat \<Rightarrow> g2_element \<Rightarrow> review option" where
  "g2_review reviewCount el =
     (let reviewTitle = trim (strip_quotes
            (or_else (trim (name_div_text el)) (''Review '' @ dec_nat (reviewCount + 1))));
          originalReviewText = trim (body_text el);
          rating = (case search rating_regex originalReviewText of
                      Some g \<Rightarrow> g | None \<Rightarrow> ''N/A'');
          reviewText = clean_review_text originalReviewText;
          like = answer (likeMatch reviewText);
          dislike = answer (dislikeMatch reviewText);
          problemsSolved = answer (problemsMatch reviewText)
      in if like = [] \<and> dislike = [] \<and> problemsSolved = [] \<and> length reviewText < 10
         then None
         else
           (let reviewerName = or_else (trim (reviewer_text el))
                                 (''Anonymous-'' @ dec_nat (reviewCount + 1));
                reviewDate0 = or_else (attr_or_empty (datetime_attr el))
                                (or_else (trim (date_text el)) ''2024-06-01'');
                reviewDate = (if reviewDate0 = ''Unknown Date'' \<or> reviewDate0 = []
                              then ''2024-06-01'' else reviewDate0);
                jobTitle = or_else (trim (job_text el)) ''N/A''
            in Some \<lparr> reviewerName = reviewerName, jobTitle = jobTitle,
                      reviewDate = reviewDate, stars = rating, reviewTitle = reviewTitle,
                      content = QA like dislike problemsSolved \<rparr>))"

text \<open>\<^verbatim>\<open>reviewBodies.each\<close>: \<^verbatim>\<open>reviewCount\<close> grows with each record pushed.\<close>

fun g2_reviews :: "nat \<Rightarrow> g2_element list \<Rightarrow> review list" where
  "g2_reviews reviewCount [] = []"
| "g2_reviews reviewCount (el # els) =
     (case g2_review reviewCount el of
        None \<Rightarrow> g2_reviews reviewCount els
      | Some r \<Rightarrow> r # g2_reviews (reviewCount + 1) els)"

text \<open>
  The product summary: \<^verbatim>\<open>reviewSite\<close>, \<^verbatim>\<open>totalReviews\<close> and the records (\<^verbatim>\<open>productName\<close> and
  \<^verbatim>\<open>stars\<close> play no part below and are left out).
\<close>

record product_data =
  reviewSite :: string
  totalReviews :: string
  allReviews :: "review list"

text \<open>
  The document of a G2 page is given by its elements in document order. Of an element the
  count selectors read the tag name, the attributes \<^verbatim>\<open>data-testid\<close> and \<^verbatim>\<open>class\<close>, and its text
  (\<^verbatim>\<open>.text()\<close>, the text of the element with that of its descendants). An element with
  \<^verbatim>\<open>itemprop="reviewBody"\<close> comes with what the review loop reads from its container, and its
  text is \<open>body_text\<close>. The count selectors query the whole document, so they see the review
  bodies as they see any other element.
\<close>

record g2_node =
  node_tag :: string
  node_testid :: "string option"
  node_class :: string

datatype g2_item = Element g2_node string | ReviewBody g2_node g2_element

record g2_page =
  g2_elements :: "g2_item list"

definition item_node :: "g2_item \<Rightarrow> g2_node" where
  "item_node x = (case x of Element nd t \<Rightarrow> nd | ReviewBody nd el \<Rightarrow> nd)"

definition item_text :: "g2_item \<Rightarrow> string" where
  "item_text x = (case x of Element nd t \<Rightarrow> t | ReviewBody nd el \<Rightarrow> body_text el)"

text \<open>\<^verbatim>\<open>$('[itemprop="reviewBody"]')\<close>\<close>

definition review_bodies :: "g2_page \<Rightarrow> g2_element list" where
  "review_bodies page =
     List.map_filter (\<lambda>x. case x of Element nd t \<Rightarrow> None | ReviewBody nd el \<Rightarrow> Some el)
       (g2_elements page)"

text \<open>The class names of a \<^verbatim>\<open>class\<close> attribute: its pieces between white space.\<close>

fun split_where :: "(char \<Rightarrow> bool) \<Rightarrow> string \<Rightarrow> string list" where
  "split_where P [] = [[]]"
| "split_where P (c # cs) =
     (if P c then [] # split_where P cs
      else (case split_where P cs of p # ps \<Rightarrow> (c # p) # ps | [] \<Rightarrow> [[c]]))"

definition class_tokens :: "string \<Rightarrow> string list" where
  "class_tokens cls = filter (\<lambda>w. w \<noteq> []) (split_where is_space cls)"

text \<open>\<^verbatim>\<open>.text()\<close> of a selection is the texts of its elements put together; \<^verbatim>\<open>.first().text()\<close>
  is the text of the first, or the empty string.\<close>

definition selection_text :: "g2_item list \<Rightarrow> string" where
  "selection_text xs = concat (map item_text xs)"

definition first_text :: "g2_item list \<Rightarrow> string" where
  "first_text xs = (case xs of [] \<Rightarrow> [] | x # _ \<Rightarrow> item_text x)"

text \<open>The filters of the second and the sixth selector: \<^verbatim>\<open>/\d+\s*review/i\<close> and
  \<^verbatim>\<open>/^\d+\s*reviews?$/i\<close>.\<close>

definition digits_review :: "string matcher" where
  "digits_review = m_seq (many1_greedy is_digit) (m_seq (many_greedy is_space) (lit_ci ''review''))"

definition exact_count :: "string matcher" where
  "exact_count =
     m_seq (many1_greedy is_digit)
       (m_seq (many_greedy is_space)
          (m_seq (lit_ci ''review'') (m_seq (opt_greedy (lit_ci ''s'')) eos)))"

text \<open>
  The texts of the six count selectors, in the order of the \<^verbatim>\<open>||\<close> chain:
  \<^verbatim>\<open>$('[data-testid="review-count"]').text()\<close>,
  \<^verbatim>\<open>$('span:contains("review")').filter(...).first().text()\<close>,
  \<^verbatim>\<open>$('.review-count').text()\<close>, \<^verbatim>\<open>$('h2:contains("review")').text()\<close>,
  \<^verbatim>\<open>$('[class*="review-count"]').text()\<close> and
  \<^verbatim>\<open>$('*:contains("reviews")').filter(...).first().text()\<close>.
\<close>

definition count_texts :: "g2_page \<Rightarrow> string list" where
  "count_texts page =
     (let els = g2_elements page in
      [selection_text (filter (\<lambda>x. node_testid (item_node x) = Some ''review-count'') els),
       first_text (filter (\<lambda>x. node_tag (item_node x) = ''span''
                                \<and> str_includes (item_text x) ''review''
                                \<and> search digits_review (item_text x) \<noteq> None) els),
       selection_text (filter (\<lambda>x. ''review-count'' \<in> set (class_tokens (node_class (item_node x)))) els),
       selection_text (filter (\<lambda>x. node_tag (item_node x) = ''h2''
                                    \<and> str_includes (item_text x) ''review'') els),
       selection_text (filter (\<lambda>x. str_includes (node_class (item_node x)) ''review-count'') els),
       first_text (filter (\<lambda>x. str_includes (item_text x) ''reviews''
                                \<and> match_here exact_count (item_text x) \<noteq> None) els)])"

text \<open>
  \<^verbatim>\<open>totalReviews\<close> is the first of these texts that is not empty once trimmed, else \<^verbatim>\<open>"N/A"\<close>,
  reduced to the first group of \<^verbatim>\<open>/(\d+(?:,\d+)*)\s*review/i\<close> when that matches.
\<close>

definition first_truthy :: "string list \<Rightarrow> string \<Rightarrow> string" where
  "first_truthy ts dflt = (case filter (\<lambda>t. t \<noteq> []) ts of [] \<Rightarrow> dflt | t # _ \<Rightarrow> t)"

definition count_regex :: "string matcher" where
  "count_regex =
     m_keep (m_cat (many1_greedy is_digit)
               (star_greedy (m_cat (lit '','') (many1_greedy is_digit))))
       (m_seq (many_greedy is_space) (lit_ci ''review''))"

definition g2_totalReviews :: "string list \<Rightarrow> string" where
  "g2_totalReviews texts =
     (let totalReviews = first_truthy (map trim texts) ''N/A'' in
      if totalReviews \<noteq> ''N/A'' then
        (case search count_regex totalReviews of Some g \<Rightarrow> g | None \<Rightarrow> totalReviews)
      else totalReviews)"

definition parseG2HtmlContent :: "g2_page \<Rightarrow> product_data" where
  "parseG2HtmlContent page =
     \<lparr> reviewSite = ''G2'', totalReviews = g2_totalReviews (count_texts page),
       allReviews = g2_reviews 0 (review_bodies page) \<rparr>"

section \<open>The Trustpilot parser\<close>

text \<open>
  A card is given by the texts and attributes its selectors read; the page by the text of
  \<^verbatim>\<open>h1\<close>, its cards, the \<^verbatim>\<open>href\<close> of the next-page link, and whether the parser's \<^verbatim>\<open>try\<close> block
  raises. The header pattern is \<^verbatim>\<open>/^(.+?)\s+Reviews\s+([\d,]+)$/\<close>.
\<close>

datatype 'a parse_result = ParseError | Parsed 'a

record tp_card =
  tp_name_text :: string
  tp_rating_attr :: "string option"
  tp_title_text :: string
  tp_review_text :: string
  tp_datetime_attr :: "string option"
  tp_time_text :: string

record tp_page =
  tp_raises :: bool
  tp_h1_text :: string
  tp_cards :: "tp_card list"
  tp_next_link :: "string option"

definition tp_review :: "tp_card \<Rightarrow> review" where
  "tp_review el =
     (let reviewDate0 = or_else (attr_or_empty (tp_datetime_attr el)) (trim (tp_time_text el));
          reviewDate = (if CHR ''T'' \<in> set reviewDate0
                        then hd (split_on CHR ''T'' reviewDate0) else reviewDate0)
      in \<lparr> reviewerName = trim (tp_name_text el), jobTitle = [],
           reviewDate = reviewDate, stars = attr_or_empty (tp_rating_attr el),
           reviewTitle = trim (tp_title_text el),
           content = ReviewText (trim (tp_review_text el)) \<rparr>)"

definition not_line_end :: "char \<Rightarrow> bool" where
  "not_line_end c = (c \<noteq> nl \<and> c \<noteq> CHR 0x0D)"

definition tp_header :: "(string \<times> string) matcher" where
  "tp_header =
     m_bind (many1_lazy not_line_end) (\<lambda>name.
       m_seq (many1_greedy is_space)
         (m_seq (lit ''Reviews'')
            (m_seq (many1_greedy is_space)
               (m_bind (many1_greedy (\<lambda>c. is_digit c \<or> c = CHR '',''))
                  (\<lambda>count. m_seq eos (m_return (name, count)))))))"

definition tp_totalReviews :: "string \<Rightarrow> string" where
  "tp_totalReviews h1 =
     (case match_here tp_header (trim h1) of
        Some r \<Rightarrow> filter (\<lambda>c. c \<noteq> CHR '','') (snd (fst r))
      | None \<Rightarrow> [])"

definition parsedDataFromHTML_Trustpilot :: "tp_page \<Rightarrow> product_data parse_result" where
  "parsedDataFromHTML_Trustpilot page =
     (if tp_raises page then ParseError
      else Parsed \<lparr> reviewSite = ''Trustpilot'',
                    totalReviews = tp_totalReviews (tp_h1_text page),
                    allReviews = map tp_review (tp_cards page) \<rparr>)"

section \<open>The Capterra parser\<close>

text \<open>
  A card is given by the reviewer's name as selected, the job title that the decomposition
  of the profile text yields (not modelled), the texts of the rating and date nodes and
  the texts of the five review-text selectors. The page says whether the body is a relay
  error (\<^verbatim>\<open>html.startsWith('{') && html.includes('"status"')\<close>), whether the \<^verbatim>\<open>try\<close> block raises,
  and gives the cards of the first review selector that selects any.
\<close>

record capterra_card =
  c_name_text :: string
  c_job_title :: string
  c_stars_text :: string
  c_date_text :: string
  c_review_texts :: "string list"

record capterra_page =
  c_relay_error :: bool
  c_raises :: bool
  c_cards :: "capterra_card list"

definition capterra_review_text :: "string list \<Rightarrow> string" where
  "capterra_review_text texts =
     (case filter (\<lambda>text. text \<noteq> [] \<and> \<not> str_includes text ''Comments:''
                        \<and> \<not> str_includes text ''Pros:'' \<and> \<not> str_includes text ''Cons:'')
             (map trim texts) of
        [] \<Rightarrow> []
      | text # _ \<Rightarrow> text)"

definition capterra_review :: "capterra_card \<Rightarrow> review option" where
  "capterra_review el =
     (let reviewerName = trim (c_name_text el);
          reviewText = capterra_review_text (c_review_texts el)
      in if reviewerName \<noteq> [] \<or> reviewText \<noteq> [] then
           Some \<lparr> reviewerName = reviewerName, jobTitle = c_job_title el,
                  reviewDate = trim (c_date_text el), stars = trim (c_stars_text el),
                  reviewTitle = [], content = ReviewText reviewText \<rparr>
         else None)"

definition parsedDataFromHTML_Capterra :: "capterra_page \<Rightarrow> product_data parse_result" where
  "parsedDataFromHTML_Capterra page =
     (if c_relay_error page \<or> c_raises page then ParseError
      else
        (let reviews = List.map_filter capterra_review (c_cards page)
         in Parsed \<lparr> reviewSite = ''Capterra'',
                      totalReviews = dec_nat (length reviews),
                      allReviews = reviews \<rparr>))"

text \<open>A record satisfies the data model's rule when its reviewer name or one of its content
  fields is not empty.\<close>

definition has_content :: "review \<Rightarrow> bool" where
  "has_content r =
     (case content r of
        ReviewText t \<Rightarrow> t \<noteq> []
      | QA like dislike problemsSolved \<Rightarrow> like \<noteq> [] \<or> dislike \<noteq> [] \<or> problemsSolved \<noteq> [])"

definition well_formed_record :: "review \<Rightarrow> bool" where
  "well_formed_record r = (reviewerName r \<noteq> [] \<or> has_content r)"

section \<open>Fetching with retries\<close>

text \<open>
  The network is an input: a fetch either rejects or resolves with a page. What a scraper
  does is recorded as a list of events, the attempts of the first fetch-and-parse unit by
  their number, the fetches of further pages by page number, and the delays by their length
  in milliseconds.
\<close>

datatype 'p fetched = FetchError | Body 'p

datatype event = Attempt nat | PageFetch nat | Delay nat

fun map_fetched :: "('p \<Rightarrow> 'q) \<Rightarrow> 'p fetched \<Rightarrow> 'q fetched" where
  "map_fetched f FetchError = FetchError"
| "map_fetched f (Body p) = Body (f p)"

text \<open>
  The loop \<^verbatim>\<open>for (let attempt = 1; attempt <= 3; attempt++)\<close> that \<^verbatim>\<open>scrapeG2WithProxy\<close> and
  \<^verbatim>\<open>scrapeAndFilterReviews_Capterra\<close> share. \<open>unit attempt\<close> is what the fetch and the parser
  give at that attempt; \<open>parsedResult\<close> is the variable of that name. The loop is left by
  \<^verbatim>\<open>return null\<close>, by rethrowing the fetch error, or normally.
\<close>

datatype 'a loop_exit = ReturnNull | Thrown | LoopDone 'a

function first_page_attempts ::
  "(nat \<Rightarrow> product_data parse_result fetched) \<Rightarrow> nat \<Rightarrow> product_data parse_result option
     \<Rightarrow> product_data parse_result option loop_exit \<times> event list" where
  "first_page_attempts unit attempt parsedResult =
     (if attempt \<le> 3 then
        (case unit attempt of
           FetchError \<Rightarrow>
             if attempt = 3 then (Thrown, [Attempt attempt])
             else (case first_page_attempts unit (attempt + 1) parsedResult of
                     (x, es) \<Rightarrow> (x, Attempt attempt # Delay 5000 # es))
         | Body ParseError \<Rightarrow>
             if attempt = 3 then (ReturnNull, [Attempt attempt])
             else (case first_page_attempts unit (attempt + 1) (Some ParseError) of
                     (x, es) \<Rightarrow> (x, Attempt attempt # es))
         | Body (Parsed pd) \<Rightarrow>
             if allReviews pd \<noteq> [] then (LoopDone (Some (Parsed pd)), [Attempt attempt])
             else (case first_page_attempts unit (attempt + 1) (Some (Parsed pd)) of
                     (x, es) \<Rightarrow> (x, Attempt attempt # Delay 5000 # es)))
      else (LoopDone parsedResult, []))"
  by pat_completeness auto
termination
  by (relation "measure (\<lambda>(unit, attempt, parsedResult). 4 - attempt)") auto

declare first_page_attempts.simps [simp del]

text \<open>What a scraper returns: the summary fields with the filtered records and their
  number (\<^verbatim>\<open>productName\<close> and \<^verbatim>\<open>stars\<close> are left out, as above).\<close>

record scrape_result =
  res_reviewSite :: string
  res_totalReviews :: string
  res_allReviews :: "review list"
  res_totalScrapedReviews :: nat

section \<open>The Capterra scraper\<close>

text \<open>\<^verbatim>\<open>scrapeAndFilterReviews_Capterra\<close>: one page. Reading the fields of a \<^verbatim>\<open>parsedResult\<close>
  that holds no product data raises inside the \<^verbatim>\<open>try\<close>, whose \<^verbatim>\<open>catch\<close> returns \<^verbatim>\<open>null\<close>.\<close>

text \<open>One attempt: \<^verbatim>\<open>fetchHtml(baseUrl)\<close>, then \<^verbatim>\<open>parsedDataFromHTML_Capterra(response)\<close>.\<close>

definition capterra_unit ::
  "(nat \<Rightarrow> capterra_page fetched) \<Rightarrow> nat \<Rightarrow> product_data parse_result fetched" where
  "capterra_unit fetch attempt = map_fetched parsedDataFromHTML_Capterra (fetch attempt)"

definition scrapeAndFilterReviews_Capterra ::
  "host \<Rightarrow> (nat \<Rightarrow> capterra_page fetched) \<Rightarrow> string \<Rightarrow> string
     \<Rightarrow> scrape_result option \<times> event list" where
  "scrapeAndFilterReviews_Capterra h fetch startDate endDate =
     (case first_page_attempts (capterra_unit fetch) 1 None of
        (LoopDone (Some (Parsed pd)), es) \<Rightarrow>
          (let filteredReviews =
                 filter (\<lambda>r. isReviewInDateRange h (reviewDate r) startDate endDate)
                   (allReviews pd)
           in (Some \<lparr> res_reviewSite = ''Capterra'', res_totalReviews = totalReviews pd,
                       res_allReviews = filteredReviews,
                       res_totalScrapedReviews = length filteredReviews \<rparr>, es))
      | (_, es) \<Rightarrow> (None, es))"

section \<open>The G2 scraper\<close>

text \<open>
  The loop \<^verbatim>\<open>while (currentPage <= maxPages && filteredReviews.length < maxReviews)\<close> with its
  variables; \<open>fetchPage p\<close> is the fetch of \<^verbatim>\<open>?page=p\<close> and \<open>jitter p\<close> the random part of the
  delay after that page. The loop returns the two lists, the page it stopped at and its
  events.
\<close>

function g2_more_pages ::
  "host \<Rightarrow> (nat \<Rightarrow> g2_page fetched) \<Rightarrow> (nat \<Rightarrow> nat) \<Rightarrow> string \<Rightarrow> string \<Rightarrow> nat \<Rightarrow> nat
     \<Rightarrow> nat \<Rightarrow> review list \<Rightarrow> review list
     \<Rightarrow> review list \<times> review list \<times> nat \<times> event list" where
  "g2_more_pages h fetchPage jitter startDate endDate maxReviews maxPages
       currentPage filteredReviews allRevs =
     (if currentPage \<le> maxPages \<and> length filteredReviews < maxReviews then
        (case fetchPage currentPage of
           FetchError \<Rightarrow> (filteredReviews, allRevs, currentPage, [PageFetch currentPage])
         | Body page \<Rightarrow>
             (let pageData = parseG2HtmlContent page in
              if allReviews pageData = [] then
                (filteredReviews, allRevs, currentPage, [PageFetch currentPage])
              else
                (let pageFilteredReviews =
                       filter (\<lambda>r. isReviewInDateRange h (reviewDate r) startDate endDate)
                         (allReviews pageData)
                 in case g2_more_pages h fetchPage jitter startDate endDate maxReviews maxPages
                           (currentPage + 1) (filteredReviews @ pageFilteredReviews)
                           (allRevs @ allReviews pageData) of
                      (f, a, p, es) \<Rightarrow>
                        (f, a, p, PageFetch currentPage # Delay (3000 + jitter currentPage) # es))))
      else (filteredReviews, allRevs, currentPage, []))"
  by pat_completeness auto
termination
  by (relation "measure (\<lambda>(h, fetchPage, jitter, startDate, endDate, maxReviews, maxPages,
        currentPage, filteredReviews, allRevs). Suc maxPages - currentPage)") auto

declare g2_more_pages.simps [simp del]

text \<open>\<^verbatim>\<open>Math.ceil(maxReviews / 10)\<close> on a count\<close>

definition ceil_div10 :: "nat \<Rightarrow> nat" where
  "ceil_div10 n = (n + 9) div 10"

text \<open>\<^verbatim>\<open>scrapeG2WithProxy(baseUrl, startDate, endDate, maxReviews)\<close>; \<open>fetch attempt\<close> is the
  fetch of the base URL at that attempt. The G2 parser returns no error object.\<close>

text \<open>One attempt: \<^verbatim>\<open>fetchHtml(proxyUrl)\<close>, then \<^verbatim>\<open>parseG2HtmlContent(response)\<close>.\<close>

definition g2_unit :: "(nat \<Rightarrow> g2_page fetched) \<Rightarrow> nat \<Rightarrow> product_data parse_result fetched" where
  "g2_unit fetch attempt = map_fetched (\<lambda>page. Parsed (parseG2HtmlContent page)) (fetch attempt)"

definition scrapeG2WithProxy ::
  "host \<Rightarrow> (nat \<Rightarrow> g2_page fetched) \<Rightarrow> (nat \<Rightarrow> g2_page fetched) \<Rightarrow> (nat \<Rightarrow> nat)
     \<Rightarrow> string \<Rightarrow> string \<Rightarrow> nat \<Rightarrow> scrape_result option \<times> event list" where
  "scrapeG2WithProxy h fetch fetchPage jitter startDate endDate maxReviews =
     (case first_page_attempts (g2_unit fetch) 1 None of
        (LoopDone (Some (Parsed parsedResult)), es) \<Rightarrow>
          (let allRevs = allReviews parsedResult;
               filteredReviews =
                 filter (\<lambda>r. isReviewInDateRange h (reviewDate r) startDate endDate) allRevs;
               (filteredReviews', allRevs', lastPage, es') =
                 (if length filteredReviews < maxReviews \<and> 10 \<le> length allRevs
                  then g2_more_pages h fetchPage jitter startDate endDate maxReviews
                         (ceil_div10 maxReviews) 2 filteredReviews allRevs
                  else (filteredReviews, allRevs, 2, []));
               trimmed = (if maxReviews < length filteredReviews'
                          then take maxReviews filteredReviews' else filteredReviews')
           in (Some \<lparr> res_reviewSite = ''G2'', res_totalReviews = totalReviews parsedResult,
                       res_allReviews = trimmed,
                       res_totalScrapedReviews = length trimmed \<rparr>, es @ es'))
      | (_, es) \<Rightarrow> (None, es))"

section \<open>The Trustpilot scraper\<close>

text \<open>
  The retry loop of one page, with the variables \<^verbatim>\<open>parsedResult\<close> and \<^verbatim>\<open>resp\<close>, which keep their
  value when a fetch rejects. A parser error and a page with records both leave the loop.
\<close>

function tp_attempts ::
  "(nat \<Rightarrow> tp_page fetched) \<Rightarrow> nat \<Rightarrow> product_data parse_result option \<Rightarrow> tp_page option
     \<Rightarrow> product_data parse_result option \<times> tp_page option \<times> event list" where
  "tp_attempts fetch attempt parsedResult resp =
     (if attempt \<le> 3 then
        (case fetch attempt of
           FetchError \<Rightarrow>
             (case tp_attempts fetch (attempt + 1) parsedResult resp of
                (p, r, es) \<Rightarrow>
                  (p, r, Attempt attempt # (if attempt < 3 then [Delay 5000] else []) @ es))
         | Body page \<Rightarrow>
             (case parsedDataFromHTML_Trustpilot page of
                ParseError \<Rightarrow> (Some ParseError, Some page, [Attempt attempt])
              | Parsed pd \<Rightarrow>
                  if allReviews pd \<noteq> [] then (Some (Parsed pd), Some page, [Attempt attempt])
                  else (case tp_attempts fetch (attempt + 1) (Some (Parsed pd)) (Some page) of
                          (p, r, es) \<Rightarrow>
                            (p, r, Attempt attempt
                                     # (if attempt < 3 then [Delay 5000] else []) @ es))))
      else (parsedResult, resp, []))"
  by pat_completeness auto
termination
  by (relation "measure (\<lambda>(fetch, attempt, parsedResult, resp). 4 - attempt)") auto

declare tp_attempts.simps [simp del]

text \<open>The comparisons of \<^verbatim>\<open>scrapeAllPages_Trustpilot\<close> on \<^verbatim>\<open>new Date(r.reviewDate)\<close>, and the test
  \<^verbatim>\<open>!nextLink\<close> on the \<^verbatim>\<open>href\<close> of the next-page link.\<close>

definition tp_in_window :: "host \<Rightarrow> string \<Rightarrow> string \<Rightarrow> review \<Rightarrow> bool" where
  "tp_in_window h startDateStr endDateStr r =
     (let d = parse_date h (reviewDate r)
      in date_ge d (parse_date h startDateStr) \<and> date_le d (parse_date h endDateStr))"

definition before_start :: "host \<Rightarrow> string \<Rightarrow> review \<Rightarrow> bool" where
  "before_start h startDateStr lastReview =
     date_lt (parse_date h (reviewDate lastReview)) (parse_date h startDateStr)"

definition no_link :: "string option \<Rightarrow> bool" where
  "no_link nextLink = (nextLink = None \<or> nextLink = Some [])"

text \<open>
  \<^verbatim>\<open>scrapeAllPages_Trustpilot\<close>: the loop \<^verbatim>\<open>while (true)\<close> over the pages, from the page number,
  the accumulated records and the product information at hand; \<open>fetch page attempt\<close> is the
  fetch of that page at that attempt. The loop may not end, so the function is partial. When
  every attempt of a page rejects, \<^verbatim>\<open>parsedResult\<close> is still undefined and reading
  \<^verbatim>\<open>parsedResult.error\<close> raises a \<^verbatim>\<open>TypeError\<close>, which leaves the function. The outcome comes with
  the number of the page at which the loop was left.
\<close>

datatype tp_outcome = TypeError | Returned scrape_result

definition tp_result :: "string option \<Rightarrow> review list \<Rightarrow> scrape_result" where
  "tp_result productInfo allRevs =
     \<lparr> res_reviewSite = (case productInfo of None \<Rightarrow> [] | Some _ \<Rightarrow> ''Trustpilot''),
       res_totalReviews = (case productInfo of None \<Rightarrow> [] | Some t \<Rightarrow> t),
       res_allReviews = allRevs, res_totalScrapedReviews = length allRevs \<rparr>"

partial_function (option) tp_pages ::
  "host \<Rightarrow> (nat \<Rightarrow> nat \<Rightarrow> tp_page fetched) \<Rightarrow> string \<Rightarrow> string \<Rightarrow> nat \<Rightarrow> review list
     \<Rightarrow> string option \<Rightarrow> (nat \<times> tp_outcome) option" where
  "tp_pages h fetch startDateStr endDateStr page allRevs productInfo =
     (case tp_attempts (fetch page) 1 None None of
        (None, resp, es) \<Rightarrow> Some (page, TypeError)
      | (Some ParseError, resp, es) \<Rightarrow> Some (page, Returned (tp_result productInfo allRevs))
      | (Some (Parsed productData), resp, es) \<Rightarrow>
          if allReviews productData = [] then
            Some (page, Returned (tp_result productInfo allRevs))
          else
            (let productInfo' = (case productInfo of
                                   None \<Rightarrow> Some (totalReviews productData)
                                 | Some t \<Rightarrow> Some t);
                 allRevs' = allRevs @ filter (tp_in_window h startDateStr endDateStr)
                                       (allReviews productData)
             in if before_start h startDateStr (last (allReviews productData)) then
                  Some (page, Returned (tp_result productInfo' allRevs'))
                else if no_link (case resp of None \<Rightarrow> None | Some pg \<Rightarrow> tp_next_link pg) then
                  Some (page, Returned (tp_result productInfo' allRevs'))
                else tp_pages h fetch startDateStr endDateStr (page + 1) allRevs' productInfo'))"

declare tp_pages.simps [code]

definition scrapeAllPages_Trustpilot ::
  "host \<Rightarrow> (nat \<Rightarrow> nat \<Rightarrow> tp_page fetched) \<Rightarrow> string \<Rightarrow> string \<Rightarrow> (nat \<times> tp_outcome) option" where
  "scrapeAllPages_Trustpilot h fetch startDateStr endDateStr =
     tp_pages h fetch startDateStr endDateStr 1 [] None"

text \<open>
  The four ways out of the loop at a page, read on what the retries of that page leave:
  the parser reported an error; no record is left (the last parsed result is empty, or no
  attempt was parsed at all); the last record of the page is dated before the start of the
  range; the page has no next-page link.
\<close>

definition tp_unit ::
  "(nat \<Rightarrow> nat \<Rightarrow> tp_page fetched) \<Rightarrow> nat \<Rightarrow> product_data parse_result option \<times> tp_page option" where
  "tp_unit fetch page = (case tp_attempts (fetch page) 1 None None of (p, r, es) \<Rightarrow> (p, r))"

definition parse_error_at :: "(nat \<Rightarrow> nat \<Rightarrow> tp_page fetched) \<Rightarrow> nat \<Rightarrow> bool" where
  "parse_error_at fetch page = (fst (tp_unit fetch page) = Some ParseError)"

definition no_records_at :: "(nat \<Rightarrow> nat \<Rightarrow> tp_page fetched) \<Rightarrow> nat \<Rightarrow> bool" where
  "no_records_at fetch page =
     (case fst (tp_unit fetch page) of
        None \<Rightarrow> True
      | Some ParseError \<Rightarrow> False
      | Some (Parsed pd) \<Rightarrow> allReviews pd = [])"

definition older_than_start_at ::
  "host \<Rightarrow> (nat \<Rightarrow> nat \<Rightarrow> tp_page fetched) \<Rightarrow> string \<Rightarrow> nat \<Rightarrow> bool" where
  "older_than_start_at h fetch startDateStr page =
     (case fst (tp_unit fetch page) of
        Some (Parsed pd) \<Rightarrow>
          allReviews pd \<noteq> [] \<and> before_start h startDateStr (last (allReviews pd))
      | _ \<Rightarrow> False)"

definition no_next_link_at :: "(nat \<Rightarrow> nat \<Rightarrow> tp_page fetched) \<Rightarrow> nat \<Rightarrow> bool" where
  "no_next_link_at fetch page =
     (case snd (tp_unit fetch page) of
        None \<Rightarrow> False
      | Some pg \<Rightarrow> no_link (tp_next_link pg))"

definition tp_stops :: "host \<Rightarrow> (nat \<Rightarrow> nat \<Rightarrow> tp_page fetched) \<Rightarrow> string \<Rightarrow> nat \<Rightarrow> bool" where
  "tp_stops h fetch startDateStr page =
     (parse_error_at fetch page \<or> no_records_at fetch page
      \<or> older_than_start_at h fetch startDateStr page \<or> no_next_link_at fetch page)"

section \<open>Reading the events\<close>

text \<open>The number of attempts among the events; the attempts that are followed at once by
  another attempt, with no delay between the two; and the delays.\<close>

fun is_attempt :: "event \<Rightarrow> bool" where
  "is_attempt (Attempt k) = True"
| "is_attempt _ = False"

definition attempt_count :: "event list \<Rightarrow> nat" where
  "attempt_count es = length (filter is_attempt es)"

fun undelayed :: "event list \<Rightarrow> nat list" where
  "undelayed (Attempt k # Attempt j # es) = k # undelayed (Attempt j # es)"
| "undelayed (e # es) = undelayed es"
| "undelayed [] = []"

fun delays :: "event list \<Rightarrow> nat list" where
  "delays [] = []"
| "delays (Delay ms # es) = ms # delays es"
| "delays (e # es) = delays es"

text \<open>What an attempt of a Trustpilot page gives, and an attempt that parsed a page with no
  record.\<close>

definition tp_unit_at ::
  "(nat \<Rightarrow> nat \<Rightarrow> tp_page fetched) \<Rightarrow> nat \<Rightarrow> nat \<Rightarrow> product_data parse_result fetched" where
  "tp_unit_at fetch page attempt = map_fetched parsedDataFromHTML_Trustpilot (fetch page attempt)"

definition zero_records :: "product_data parse_result fetched \<Rightarrow> bool" where
  "zero_records u = (case u of Body (Parsed pd) \<Rightarrow> allReviews pd = [] | _ \<Rightarrow> False)"

text \<open>The records of a further G2 page, none when its fetch rejects.\<close>

definition g2_page_records :: "(nat \<Rightarrow> g2_page fetched) \<Rightarrow> nat \<Rightarrow> review list" where
  "g2_page_records fetchPage p =
     (case fetchPage p of FetchError \<Rightarrow> [] | Body page \<Rightarrow> allReviews (parseG2HtmlContent page))"

definition in_range :: "host \<Rightarrow> string \<Rightarrow> string \<Rightarrow> review \<Rightarrow> bool" where
  "in_range h startDate endDate r = isReviewInDateRange h (reviewDate r) startDate endDate"

fun page_fetches :: "event list \<Rightarrow> nat list" where
  "page_fetches [] = []"
| "page_fetches (PageFetch p # es) = p # page_fetches es"
| "page_fetches (e # es) = page_fetches es"

section \<open>Sample inputs\<close>


definition relay_error_then_card :: "nat \<Rightarrow> capterra_page fetched" where
  "relay_error_then_card attempt =
     (if attempt = 1 then Body \<lparr> c_relay_error = True, c_raises = False, c_cards = [] \<rparr>
      else Body \<lparr> c_relay_error = False, c_raises = False,
                   c_cards = [\<lparr> c_name_text = ''Al'', c_job_title = [], c_stars_text = ''4.0'',
                                 c_date_text = ''2024-02-02'', c_review_texts = [''Nice''] \<rparr>] \<rparr>)"

definition empty_g2_page :: "nat \<Rightarrow> g2_page fetched" where
  "empty_g2_page attempt = Body \<lparr> g2_elements = [] \<rparr>"

definition empty_tp_page :: "nat \<Rightarrow> nat \<Rightarrow> tp_page fetched" where
  "empty_tp_page page attempt =
     Body \<lparr> tp_raises = False, tp_h1_text = ''Acme Reviews 12'', tp_cards = [],
            tp_next_link = Some ''/review/acme?page=2'' \<rparr>"


definition ten_bodies :: "g2_element list" where
  "ten_bodies = replicate 10
     \<lparr> name_div_text = ''Good'', body_text = ''Good tool!'', reviewer_text = ''Ann'',
       datetime_attr = Some ''2024-03-01'', date_text = [], job_text = [] \<rparr>"

definition plain_div :: g2_node where
  "plain_div = \<lparr> node_tag = ''div'', node_testid = None, node_class = [] \<rparr>"

definition count_element :: g2_item where
  "count_element =
     Element \<lparr> node_tag = ''span'', node_testid = Some ''review-count'', node_class = [] \<rparr>
       ''120 reviews''"

definition g2_first :: "nat \<Rightarrow> g2_page fetched" where
  "g2_first attempt =
     Body \<lparr> g2_elements = count_element # map (ReviewBody plain_div) ten_bodies \<rparr>"

definition g2_later :: "nat \<Rightarrow> g2_page fetched" where
  "g2_later p =
     (if p = 2
      then Body \<lparr> g2_elements = count_element # map (ReviewBody plain_div) (take 3 ten_bodies) \<rparr>
      else Body \<lparr> g2_elements = [count_element] \<rparr>)"



text \<open>Networks for the first page of Capterra: a rejected fetch, or a page with no card,
  followed by a page with a card.\<close>

definition capterra_card_page :: capterra_page where
  "capterra_card_page =
     \<lparr> c_relay_error = False, c_raises = False,
       c_cards = [\<lparr> c_name_text = ''Al'', c_job_title = [], c_stars_text = ''4.0'',
                     c_date_text = ''2024-02-02'', c_review_texts = [''Nice''] \<rparr>] \<rparr>"

definition fetch_error_then_card :: "nat \<Rightarrow> capterra_page fetched" where
  "fetch_error_then_card attempt = (if attempt = 1 then FetchError else Body capterra_card_page)"

definition no_card_then_card :: "nat \<Rightarrow> capterra_page fetched" where
  "no_card_then_card attempt =
     (if attempt = 1 then Body \<lparr> c_relay_error = False, c_raises = False, c_cards = [] \<rparr>
      else Body capterra_card_page)"

definition raises_then_card :: "nat \<Rightarrow> capterra_page fetched" where
  "raises_then_card attempt =
     (if attempt = 1 then Body \<lparr> c_relay_error = False, c_raises = True, c_cards = [] \<rparr>
      else Body capterra_card_page)"
section \<open>Properties of the export\<close>

lemma undouble_double_quotes: "undouble (double_quotes v) = v"
proof (induction v)
  case Nil
  then show ?case by (simp add: double_quotes_def)
next
  case (Cons c cs)
  show ?case
  proof (cases "c = dq")
    case True
    with Cons show ?thesis by (simp add: double_quotes_def)
  next
    case False
    have "double_quotes (c # cs) = c # double_quotes cs"
      using False by (simp add: double_quotes_def)
    moreover have "undouble (c # double_quotes cs) = c # undouble (double_quotes cs)"
      using False by (cases "double_quotes cs") simp_all
    ultimately show ?thesis using Cons by simp
  qed
qed

text \<open>
  C8. For a non-empty list of records the export is the header line followed by one line
  per record, joined by newlines; the header is the list of the first record's keys in
  their order, joined by commas; every row has one cell per key of the FIRST record,
  whatever keys the row's own record has; every cell is the value's text between two double
  quotes with each embedded double quote doubled (so the text is recovered by undoubling);
  and the records \<^verbatim>\<open>[{a:1,b:"x,y"},{a:2,b:'he said "hi"'}]\<close> give the header \<^verbatim>\<open>a,b\<close> and the
  rows \<^verbatim>\<open>"1","x,y"\<close> and \<^verbatim>\<open>"2","he said ""hi"""\<close>.
\<close>

lemma csv_rows_nth:
  "i < length reviews \<Longrightarrow> csv_rows reviews ! i = csv_row (csv_headers reviews) (reviews ! i)"
  by (simp add: csv_rows_def)

lemma csv_example:
  "convertToCSV (Arr [[(''a'', Num 1), (''b'', Str ''x,y'')],
                      [(''a'', Num 2), (''b'', Str (''he said '' @ [dq] @ ''hi'' @ [dq]))]])
   = ''a,b'' @ [nl]
     @ [dq] @ ''1'' @ [dq] @ '','' @ [dq] @ ''x,y'' @ [dq] @ [nl]
     @ [dq] @ ''2'' @ [dq] @ '','' @ [dq] @ ''he said '' @ [dq, dq] @ ''hi'' @ [dq, dq] @ [dq]"
  by (simp add: csv_headers_def csv_rows_def csv_row_def quoted_def cell_text_def
      double_quotes_def dec_int_def dec_nat.simps digit_char_def dq_def nl_def)

theorem C8_csv_layout:
  "convertToCSV (Arr (r # rs)) = join [nl] (join '','' (map fst r) # csv_rows (r # rs))
   \<and> length (csv_rows (r # rs)) = length (r # rs)
   \<and> (\<forall>i < length (r # rs).
         csv_rows (r # rs) ! i =
           join '','' (map (\<lambda>k. [dq] @ double_quotes (cell_text ((r # rs) ! i) k) @ [dq])
                          (map fst r)))
   \<and> (\<forall>v. undouble (double_quotes v) = v)
   \<and> convertToCSV (Arr [[(''a'', Num 1), (''b'', Str ''x,y'')],
                          [(''a'', Num 2), (''b'', Str (''he said '' @ [dq] @ ''hi'' @ [dq]))]])
       = ''a,b'' @ [nl]
         @ [dq] @ ''1'' @ [dq] @ '','' @ [dq] @ ''x,y'' @ [dq] @ [nl]
         @ [dq] @ ''2'' @ [dq] @ '','' @ [dq] @ ''he said '' @ [dq, dq] @ ''hi'' @ [dq, dq] @ [dq]"
proof -
  have rows: "\<forall>i < length (r # rs).
         csv_rows (r # rs) ! i =
           join '','' (map (\<lambda>k. [dq] @ double_quotes (cell_text ((r # rs) ! i) k) @ [dq])
                          (map fst r))"
  proof (intro allI impI)
    fix i
    assume "i < length (r # rs)"
    then have "csv_rows (r # rs) ! i = csv_row (csv_headers (r # rs)) ((r # rs) ! i)"
      by (rule csv_rows_nth)
    then show "csv_rows (r # rs) ! i =
           join '','' (map (\<lambda>k. [dq] @ double_quotes (cell_text ((r # rs) ! i) k) @ [dq])
                          (map fst r))"
      by (simp add: csv_row_def quoted_def csv_headers_def)
  qed
  have "convertToCSV (Arr (r # rs)) = join [nl] (join '','' (map fst r) # csv_rows (r # rs))"
    by (simp add: csv_headers_def)
  moreover have "length (csv_rows (r # rs)) = length (r # rs)"
    by (simp add: csv_rows_def)
  ultimately show ?thesis
    using rows undouble_double_quotes csv_example by blast
qed

theorem C8_csv_layout_witness:
  "csv_rows [[(''a'', Num 1), (''b'', Null)], [(''c'', Str ''z'')]] ! 1 = [dq, dq] @ '','' @ [dq, dq]"
  using C8_csv_layout [of "[(''a'', Num 1), (''b'', Null)]" "[[(''c'', Str ''z'')]]"]
  by (simp add: cell_text_def double_quotes_def)

text \<open>
  C10. An input that is not an array, or an array with no element, gives the empty string:
  no header line is written and nothing is raised.
\<close>

theorem C10_csv_empty:
  "(\<forall>rs. v \<noteq> Arr rs) \<or> v = Arr [] \<Longrightarrow> convertToCSV v = []"
  by (cases v rule: convertToCSV.cases) auto

theorem C10_csv_empty_witness:
  "convertToCSV (Obj [(''a'', Num 1)]) = [] \<and> convertToCSV (Prim (Str ''abc'')) = []
   \<and> convertToCSV (Arr []) = []"
  using C10_csv_empty [of "Obj [(''a'', Num 1)]"] C10_csv_empty [of "Prim (Str ''abc'')"]
    C10_csv_empty [of "Arr []"]
  by simp
section \<open>Properties of the date functions\<close>









































lemma date_ge_iff: "date_ge x y \<longleftrightarrow> (\<exists>t a. x = Some t \<and> y = Some a \<and> a \<le> t)"
  by (auto simp: date_ge_def split: option.splits)

lemma date_le_iff: "date_le x y \<longleftrightarrow> (\<exists>t b. x = Some t \<and> y = Some b \<and> t \<le> b)"
  by (auto simp: date_le_def split: option.splits)

lemma filter_member:
  "r \<in> set (filterReviewsByDate h rs s e) \<longleftrightarrow>
     r \<in> set rs \<and> (\<exists>t a b. parseDate h (reviewDate r) = Some t \<and> parseDate h s = Some a
        \<and> parseDate h e = Some b \<and> a \<le> t \<and> t \<le> b)"
  by (auto simp: filterReviewsByDate_def Let_def date_ge_iff date_le_iff)

lemma in_range_iff:
  "isReviewInDateRange h d s e \<longleftrightarrow>
     (\<exists>t a b. calculateDateFromRelative h d = Some t \<and> parse_date h s = Some a
        \<and> parse_date h e = Some b \<and> a \<le> t \<and> t \<le> b)"
  by (auto simp: isReviewInDateRange_def Let_def date_ge_iff date_le_iff)

text \<open>
  C3. \<^verbatim>\<open>filterReviewsByDate\<close> keeps exactly the reviews whose date resolves and lies between
  the resolved start and end, both bounds included; so a review dated exactly at the start or
  exactly at the end of a range is kept, and a review whose date does not resolve is dropped.
  \<^verbatim>\<open>isReviewInDateRange\<close> decides the same way on the date \<^verbatim>\<open>calculateDateFromRelative\<close> gives.
\<close>

theorem C3_inclusive_range:
  "(r \<in> set (filterReviewsByDate h rs s e) \<longleftrightarrow>
      r \<in> set rs \<and> (\<exists>t a b. parseDate h (reviewDate r) = Some t \<and> parseDate h s = Some a
        \<and> parseDate h e = Some b \<and> a \<le> t \<and> t \<le> b))
   \<and> (r \<in> set rs \<and> parseDate h s = Some a \<and> parseDate h e = Some b \<and> a \<le> b
        \<and> (parseDate h (reviewDate r) = Some a \<or> parseDate h (reviewDate r) = Some b)
       \<longrightarrow> r \<in> set (filterReviewsByDate h rs s e))
   \<and> (parseDate h (reviewDate r) = None \<longrightarrow> r \<notin> set (filterReviewsByDate h rs s e))
   \<and> (isReviewInDateRange h d s e \<longleftrightarrow>
        (\<exists>t a b. calculateDateFromRelative h d = Some t \<and> parse_date h s = Some a
           \<and> parse_date h e = Some b \<and> a \<le> t \<and> t \<le> b))
   \<and> (parse_date h s = Some a \<and> parse_date h e = Some b \<and> a \<le> b
        \<and> (calculateDateFromRelative h d = Some a \<or> calculateDateFromRelative h d = Some b)
       \<longrightarrow> isReviewInDateRange h d s e)
   \<and> (calculateDateFromRelative h d = None \<longrightarrow> \<not> isReviewInDateRange h d s e)"
  unfolding filter_member in_range_iff by auto

lemma parseDate_samples:
  "parseDate (utc_host 2024 2 15) ''2023-01-01'' = Some 1672531200000"
  "parseDate (utc_host 2024 2 15) ''2023-12-31'' = Some 1703980800000"
  "parseDate (utc_host 2024 2 15) ''12/31/2023'' = Some 1703980800000"
  "parseDate (utc_host 2024 2 15) ''2024-01-01'' = Some 1704067200000"
  "parseDate (utc_host 2024 2 15) ''last week'' = None"
  by (simp_all add: parseDate_def trim_def is_space_def digits_between_def is_digit_def
      to_number_def digits_value_def digit_val_def utc_host_def utc_parse_date_def
      utc_make_date_def days_from_civil_def Let_def)

theorem C3_inclusive_range_witness:
  "sample_review ''12/31/2023'' \<in> set (filterReviewsByDate (utc_host 2024 2 15)
       [sample_review ''2024-01-01'', sample_review ''12/31/2023'', sample_review ''last week'']
       ''2023-01-01'' ''2023-12-31'')
   \<and> sample_review ''last week'' \<notin> set (filterReviewsByDate (utc_host 2024 2 15)
       [sample_review ''2024-01-01'', sample_review ''12/31/2023'', sample_review ''last week'']
       ''2023-01-01'' ''2023-12-31'')
   \<and> sample_review ''2024-01-01'' \<notin> set (filterReviewsByDate (utc_host 2024 2 15)
       [sample_review ''2024-01-01'', sample_review ''12/31/2023'', sample_review ''last week'']
       ''2023-01-01'' ''2023-12-31'')"
  using C3_inclusive_range [of "sample_review ''12/31/2023''" "utc_host 2024 2 15"
      "[sample_review ''2024-01-01'', sample_review ''12/31/2023'', sample_review ''last week'']"
      "''2023-01-01''" "''2023-12-31''" 1672531200000 1703980800000]
    C3_inclusive_range [of "sample_review ''last week''" "utc_host 2024 2 15"
      "[sample_review ''2024-01-01'', sample_review ''12/31/2023'', sample_review ''last week'']"
      "''2023-01-01''" "''2023-12-31''"]
    C3_inclusive_range [of "sample_review ''2024-01-01''" "utc_host 2024 2 15"
      "[sample_review ''2024-01-01'', sample_review ''12/31/2023'', sample_review ''last week'']"
      "''2023-01-01''" "''2023-12-31''"]
  by (simp add: parseDate_samples sample_review_def)

section \<open>Properties of the regular expressions\<close>




















lemma match_here_None: "match_here m s = None \<longleftrightarrow> m s = []"
  by (auto simp: match_here_def split: list.splits)
















section \<open>Properties of the parsers\<close>

text \<open>
  C5. On the review text \<^verbatim>\<open>What do you like best about X? Great support What do you dislike
  about X? Slow UI\<close> the three patterns give like \<^verbatim>\<open>Great support\<close> (the text after the first
  question up to the marker of the second), dislike \<^verbatim>\<open>Slow UI\<close> (the text after the second
  question up to the end) and an empty problemsSolved; the cleaning leaves this text as it
  is, and the record built from a review body with this text carries these three answers.
\<close>

theorem C5_g2_question_answers:
  "answer (likeMatch
      ''What do you like best about X? Great support What do you dislike about X? Slow UI'')
     = ''Great support''
   \<and> answer (dislikeMatch
      ''What do you like best about X? Great support What do you dislike about X? Slow UI'')
     = ''Slow UI''
   \<and> answer (problemsMatch
      ''What do you like best about X? Great support What do you dislike about X? Slow UI'')
     = []
   \<and> clean_review_text
      ''What do you like best about X? Great support What do you dislike about X? Slow UI''
     = ''What do you like best about X? Great support What do you dislike about X? Slow UI''
   \<and> map_option content (g2_review 0
        \<lparr> name_div_text = [],
          body_text =
            ''What do you like best about X? Great support What do you dislike about X? Slow UI'',
          reviewer_text = [], datetime_attr = None, date_text = [], job_text = [] \<rparr>)
     = Some (QA ''Great support'' ''Slow UI'' [])"
  by code_simp

text \<open>The Capterra parser emits a record only when the reviewer's name or the review text
  is not empty, and the G2 parser names every record it emits.\<close>

lemma capterra_review_well_formed:
  "capterra_review el = Some r \<Longrightarrow> well_formed_record r"
  by (auto simp: capterra_review_def well_formed_record_def has_content_def Let_def
      split: if_splits)

lemma capterra_review_none:
  "trim (c_name_text el) = [] \<Longrightarrow> capterra_review_text (c_review_texts el) = []
     \<Longrightarrow> capterra_review el = None"
  by (simp add: capterra_review_def)

lemma capterra_records_well_formed:
  "parsedDataFromHTML_Capterra page = Parsed pd \<Longrightarrow> r \<in> set (allReviews pd)
     \<Longrightarrow> well_formed_record r"
proof -
  assume p: "parsedDataFromHTML_Capterra page = Parsed pd" and r: "r \<in> set (allReviews pd)"
  from p have "pd = \<lparr> reviewSite = ''Capterra'',
      totalReviews = dec_nat (length (List.map_filter capterra_review (c_cards page))),
      allReviews = List.map_filter capterra_review (c_cards page) \<rparr>"
    by (simp add: parsedDataFromHTML_Capterra_def Let_def split: if_splits)
  then have "allReviews pd = List.map_filter capterra_review (c_cards page)"
    by simp
  with r obtain el where "capterra_review el = Some r"
    by (auto simp: List.map_filter_def)
  then show ?thesis by (rule capterra_review_well_formed)
qed

lemma or_else_nonempty: "b \<noteq> [] \<Longrightarrow> or_else a b \<noteq> []"
  by (simp add: or_else_def)

lemma g2_review_named: "g2_review k el = Some r \<Longrightarrow> reviewerName r \<noteq> []"
proof -
  assume a: "g2_review k el = Some r"
  have "or_else (trim (reviewer_text el)) (''Anonymous-'' @ dec_nat (k + 1)) \<noteq> []"
    by (rule or_else_nonempty) simp
  with a show ?thesis
    by (auto simp: g2_review_def Let_def split: if_splits)
qed

lemma g2_reviews_named: "r \<in> set (g2_reviews k els) \<Longrightarrow> reviewerName r \<noteq> []"
proof (induction els arbitrary: k)
  case Nil
  then show ?case by simp
next
  case (Cons el els)
  then show ?case
    by (auto split: option.splits dest: g2_review_named)
qed

lemma g2_records_well_formed:
  "r \<in> set (allReviews (parseG2HtmlContent page)) \<Longrightarrow> well_formed_record r"
  by (auto simp: parseG2HtmlContent_def well_formed_record_def dest: g2_reviews_named)

text \<open>
  C4. The Trustpilot parser pushes a record for every card: a card whose selectors find no
  reviewer name and no review text gives a record with both fields empty, which the rule
  of the data model excludes.
\<close>

theorem C4_trustpilot_empty_record:
  "parsedDataFromHTML_Trustpilot
     \<lparr> tp_raises = False, tp_h1_text = ''Acme Reviews 12'',
       tp_cards = [\<lparr> tp_name_text = [], tp_rating_attr = None, tp_title_text = [],
                     tp_review_text = [], tp_datetime_attr = None, tp_time_text = [] \<rparr>],
       tp_next_link = None \<rparr>
   = Parsed \<lparr> reviewSite = ''Trustpilot'', totalReviews = ''12'',
               allReviews = [\<lparr> reviewerName = [], jobTitle = [], reviewDate = [],
                                stars = [], reviewTitle = [], content = ReviewText [] \<rparr>] \<rparr>"
  by code_simp












section \<open>Properties of the retry loops\<close>

lemma fpa_step:
  "attempt < 3 \<Longrightarrow> first_page_attempts unit attempt pr =
     (case unit attempt of
        FetchError \<Rightarrow> (case first_page_attempts unit (attempt + 1) pr of
                         (x, es) \<Rightarrow> (x, Attempt attempt # Delay 5000 # es))
      | Body ParseError \<Rightarrow> (case first_page_attempts unit (attempt + 1) (Some ParseError) of
                              (x, es) \<Rightarrow> (x, Attempt attempt # es))
      | Body (Parsed pd) \<Rightarrow>
          if allReviews pd \<noteq> [] then (LoopDone (Some (Parsed pd)), [Attempt attempt])
          else (case first_page_attempts unit (attempt + 1) (Some (Parsed pd)) of
                  (x, es) \<Rightarrow> (x, Attempt attempt # Delay 5000 # es)))"
  by (subst first_page_attempts.simps) (simp split: fetched.splits parse_result.splits)

lemma fpa_last:
  "first_page_attempts unit 3 pr =
     (case unit 3 of
        FetchError \<Rightarrow> (Thrown, [Attempt 3])
      | Body ParseError \<Rightarrow> (ReturnNull, [Attempt 3])
      | Body (Parsed pd) \<Rightarrow>
          if allReviews pd \<noteq> [] then (LoopDone (Some (Parsed pd)), [Attempt 3])
          else (LoopDone (Some (Parsed pd)), [Attempt 3, Delay 5000]))"
proof -
  have four: "first_page_attempts unit 4 q = (LoopDone q, [])" for q
    by (subst first_page_attempts.simps) simp
  show ?thesis
    by (subst first_page_attempts.simps) (simp add: four split: fetched.splits parse_result.splits)
qed

lemma fpa_first:
  "first_page_attempts unit 1 pr =
     (case unit 1 of
        FetchError \<Rightarrow> (case first_page_attempts unit 2 pr of
                         (x, es) \<Rightarrow> (x, Attempt 1 # Delay 5000 # es))
      | Body ParseError \<Rightarrow> (case first_page_attempts unit 2 (Some ParseError) of
                              (x, es) \<Rightarrow> (x, Attempt 1 # es))
      | Body (Parsed pd) \<Rightarrow>
          if allReviews pd \<noteq> [] then (LoopDone (Some (Parsed pd)), [Attempt 1])
          else (case first_page_attempts unit 2 (Some (Parsed pd)) of
                  (x, es) \<Rightarrow> (x, Attempt 1 # Delay 5000 # es)))"
proof -
  have "(1::nat) < 3" by simp
  from fpa_step [OF this, of unit pr] show ?thesis unfolding one_add_one .
qed

lemma fpa_second:
  "first_page_attempts unit 2 pr =
     (case unit 2 of
        FetchError \<Rightarrow> (case first_page_attempts unit 3 pr of
                         (x, es) \<Rightarrow> (x, Attempt 2 # Delay 5000 # es))
      | Body ParseError \<Rightarrow> (case first_page_attempts unit 3 (Some ParseError) of
                              (x, es) \<Rightarrow> (x, Attempt 2 # es))
      | Body (Parsed pd) \<Rightarrow>
          if allReviews pd \<noteq> [] then (LoopDone (Some (Parsed pd)), [Attempt 2])
          else (case first_page_attempts unit 3 (Some (Parsed pd)) of
                  (x, es) \<Rightarrow> (x, Attempt 2 # Delay 5000 # es)))"
proof -
  have lt: "(2::nat) < 3" and eq: "(2::nat) + 1 = 3" by simp_all
  from fpa_step [OF lt, of unit pr] show ?thesis unfolding eq .
qed

lemma fpa_attempt_count: "attempt_count (snd (first_page_attempts unit 1 pr)) \<le> 3"
  unfolding fpa_first fpa_second fpa_last
  by (simp add: attempt_count_def split: fetched.splits parse_result.splits prod.splits)

lemma fpa_undelayed:
  "k \<in> set (undelayed (snd (first_page_attempts unit 1 pr))) \<Longrightarrow> unit k = Body ParseError"
  unfolding fpa_first fpa_second fpa_last
  by (auto split: fetched.splits parse_result.splits prod.splits if_splits)

lemma fpa_delays: "ms \<in> set (delays (snd (first_page_attempts unit 1 pr))) \<Longrightarrow> ms = 5000"
  unfolding fpa_first fpa_second fpa_last
  by (auto split: fetched.splits parse_result.splits prod.splits if_splits)

lemma fpa_all_zero:
  "zero_records (unit 1) \<Longrightarrow> zero_records (unit 2) \<Longrightarrow> zero_records (unit 3) \<Longrightarrow>
     \<exists>pd. unit 3 = Body (Parsed pd) \<and> allReviews pd = [] \<and>
       first_page_attempts unit 1 pr =
         (LoopDone (Some (Parsed pd)),
          [Attempt 1, Delay 5000, Attempt 2, Delay 5000, Attempt 3, Delay 5000])"
  unfolding fpa_first fpa_second fpa_last
  by (auto simp: zero_records_def split: fetched.splits parse_result.splits)


lemma fpa_zero_retried:
  "zero_records (unit k) \<Longrightarrow> k < 3 \<Longrightarrow> Attempt k \<in> set (snd (first_page_attempts unit 1 pr))
     \<Longrightarrow> Attempt (k + 1) \<in> set (snd (first_page_attempts unit 1 pr))"
  unfolding fpa_first fpa_second fpa_last
  by (auto simp: zero_records_def split: fetched.splits parse_result.splits prod.splits if_splits)

lemma tp_step:
  "attempt < 3 \<Longrightarrow> tp_attempts fetch attempt pr resp =
     (case fetch attempt of
        FetchError \<Rightarrow>
          (case tp_attempts fetch (attempt + 1) pr resp of
             (p, r, es) \<Rightarrow> (p, r, Attempt attempt # Delay 5000 # es))
      | Body page \<Rightarrow>
          (case parsedDataFromHTML_Trustpilot page of
             ParseError \<Rightarrow> (Some ParseError, Some page, [Attempt attempt])
           | Parsed pd \<Rightarrow>
               if allReviews pd \<noteq> [] then (Some (Parsed pd), Some page, [Attempt attempt])
               else (case tp_attempts fetch (attempt + 1) (Some (Parsed pd)) (Some page) of
                       (p, r, es) \<Rightarrow> (p, r, Attempt attempt # Delay 5000 # es))))"
  by (subst tp_attempts.simps) (simp split: fetched.splits parse_result.splits)

lemma tp_last:
  "tp_attempts fetch 3 pr resp =
     (case fetch 3 of
        FetchError \<Rightarrow> (pr, resp, [Attempt 3])
      | Body page \<Rightarrow>
          (case parsedDataFromHTML_Trustpilot page of
             ParseError \<Rightarrow> (Some ParseError, Some page, [Attempt 3])
           | Parsed pd \<Rightarrow> (Some (Parsed pd), Some page, [Attempt 3])))"
proof -
  have four: "tp_attempts fetch 4 q r = (q, r, [])" for q r
    by (subst tp_attempts.simps) simp
  show ?thesis
    by (subst tp_attempts.simps) (simp add: four split: fetched.splits parse_result.splits)
qed

lemma tp_first:
  "tp_attempts fetch 1 pr resp =
     (case fetch 1 of
        FetchError \<Rightarrow>
          (case tp_attempts fetch 2 pr resp of
             (p, r, es) \<Rightarrow> (p, r, Attempt 1 # Delay 5000 # es))
      | Body page \<Rightarrow>
          (case parsedDataFromHTML_Trustpilot page of
             ParseError \<Rightarrow> (Some ParseError, Some page, [Attempt 1])
           | Parsed pd \<Rightarrow>
               if allReviews pd \<noteq> [] then (Some (Parsed pd), Some page, [Attempt 1])
               else (case tp_attempts fetch 2 (Some (Parsed pd)) (Some page) of
                       (p, r, es) \<Rightarrow> (p, r, Attempt 1 # Delay 5000 # es))))"
proof -
  have "(1::nat) < 3" by simp
  from tp_step [OF this, of fetch pr resp] show ?thesis unfolding one_add_one .
qed

lemma tp_second:
  "tp_attempts fetch 2 pr resp =
     (case fetch 2 of
        FetchError \<Rightarrow>
          (case tp_attempts fetch 3 pr resp of
             (p, r, es) \<Rightarrow> (p, r, Attempt 2 # Delay 5000 # es))
      | Body page \<Rightarrow>
          (case parsedDataFromHTML_Trustpilot page of
             ParseError \<Rightarrow> (Some ParseError, Some page, [Attempt 2])
           | Parsed pd \<Rightarrow>
               if allReviews pd \<noteq> [] then (Some (Parsed pd), Some page, [Attempt 2])
               else (case tp_attempts fetch 3 (Some (Parsed pd)) (Some page) of
                       (p, r, es) \<Rightarrow> (p, r, Attempt 2 # Delay 5000 # es))))"
proof -
  have lt: "(2::nat) < 3" and eq: "(2::nat) + 1 = 3" by simp_all
  from tp_step [OF lt, of fetch pr resp] show ?thesis unfolding eq .
qed

lemma tp_attempt_count: "attempt_count (snd (snd (tp_attempts fetch 1 pr resp))) \<le> 3"
  unfolding tp_first tp_second tp_last
  by (simp add: attempt_count_def split: fetched.splits parse_result.splits prod.splits)

lemma tp_undelayed: "undelayed (snd (snd (tp_attempts fetch 1 pr resp))) = []"
  unfolding tp_first tp_second tp_last
  by (simp split: fetched.splits parse_result.splits prod.splits)

lemma tp_delays: "ms \<in> set (delays (snd (snd (tp_attempts fetch 1 pr resp)))) \<Longrightarrow> ms = 5000"
  unfolding tp_first tp_second tp_last
  by (auto split: fetched.splits parse_result.splits prod.splits if_splits)

lemma tp_zero_retried:
  "zero_records (map_fetched parsedDataFromHTML_Trustpilot (fetch k)) \<Longrightarrow> k < 3
     \<Longrightarrow> Attempt k \<in> set (snd (snd (tp_attempts fetch 1 pr resp)))
     \<Longrightarrow> Attempt (k + 1) \<in> set (snd (snd (tp_attempts fetch 1 pr resp)))"
  unfolding tp_first tp_second tp_last
  by (auto simp: zero_records_def split: fetched.splits parse_result.splits prod.splits if_splits)

lemma tp_all_zero:
  "zero_records (map_fetched parsedDataFromHTML_Trustpilot (fetch 1))
   \<Longrightarrow> zero_records (map_fetched parsedDataFromHTML_Trustpilot (fetch 2))
   \<Longrightarrow> zero_records (map_fetched parsedDataFromHTML_Trustpilot (fetch 3))
   \<Longrightarrow> \<exists>page pd. fetch 3 = Body page \<and> parsedDataFromHTML_Trustpilot page = Parsed pd
         \<and> allReviews pd = []
         \<and> tp_attempts fetch 1 pr resp =
             (Some (Parsed pd), Some page,
              [Attempt 1, Delay 5000, Attempt 2, Delay 5000, Attempt 3])"
  unfolding tp_first tp_second tp_last
  by (auto simp: zero_records_def split: fetched.splits parse_result.splits)

lemma g2_unit_not_error: "g2_unit fetch k \<noteq> Body ParseError"
  by (cases "fetch k") (simp_all add: g2_unit_def)

lemma g2_undelayed: "undelayed (snd (first_page_attempts (g2_unit fetch) 1 pr)) = []"
proof (rule ccontr)
  assume "undelayed (snd (first_page_attempts (g2_unit fetch) 1 pr)) \<noteq> []"
  then obtain k where "k \<in> set (undelayed (snd (first_page_attempts (g2_unit fetch) 1 pr)))"
    by (cases "undelayed (snd (first_page_attempts (g2_unit fetch) 1 pr))") auto
  then have "g2_unit fetch k = Body ParseError" by (rule fpa_undelayed)
  then show False using g2_unit_not_error by blast
qed

lemma g2_accepts_empty:
  assumes "zero_records (g2_unit fetch 1)" "zero_records (g2_unit fetch 2)"
    "zero_records (g2_unit fetch 3)"
  shows "\<exists>res. scrapeG2WithProxy h fetch fetchPage jitter s e m =
           (Some res, [Attempt 1, Delay 5000, Attempt 2, Delay 5000, Attempt 3, Delay 5000])
         \<and> res_allReviews res = []"
proof -
  from fpa_all_zero [OF assms, of None] obtain pd where
    pd: "allReviews pd = []" and
    run: "first_page_attempts (g2_unit fetch) 1 None =
      (LoopDone (Some (Parsed pd)),
       [Attempt 1, Delay 5000, Attempt 2, Delay 5000, Attempt 3, Delay 5000])"
    by blast
  show ?thesis
    unfolding scrapeG2WithProxy_def run by (simp add: pd)
qed

lemma capterra_accepts_empty:
  assumes "zero_records (capterra_unit fetch 1)" "zero_records (capterra_unit fetch 2)"
    "zero_records (capterra_unit fetch 3)"
  shows "\<exists>res. scrapeAndFilterReviews_Capterra h fetch s e =
           (Some res, [Attempt 1, Delay 5000, Attempt 2, Delay 5000, Attempt 3, Delay 5000])
         \<and> res_allReviews res = []"
proof -
  from fpa_all_zero [OF assms, of None] obtain pd where
    pd: "allReviews pd = []" and
    run: "first_page_attempts (capterra_unit fetch) 1 None =
      (LoopDone (Some (Parsed pd)),
       [Attempt 1, Delay 5000, Attempt 2, Delay 5000, Attempt 3, Delay 5000])"
    by blast
  show ?thesis
    unfolding scrapeAndFilterReviews_Capterra_def run by (simp add: pd)
qed

lemma tp_accepts_empty:
  assumes "zero_records (tp_unit_at fetch page 1)" "zero_records (tp_unit_at fetch page 2)"
    "zero_records (tp_unit_at fetch page 3)"
  shows "tp_pages h fetch s e page acc info = Some (page, Returned (tp_result info acc))"
proof -
  from tp_all_zero [of "fetch page" None None] assms obtain pg pd where
    pd: "allReviews pd = []" and
    run: "tp_attempts (fetch page) 1 None None =
      (Some (Parsed pd), Some pg, [Attempt 1, Delay 5000, Attempt 2, Delay 5000, Attempt 3])"
    unfolding tp_unit_at_def by blast
  show ?thesis
    by (subst tp_pages.simps, unfold run) (simp add: pd)
qed

text \<open>
  What the three retry loops have in common. The fetch-and-parse unit is attempted at most 3
  times and every delay of the loop is 5000 ms. On G2 and Trustpilot no attempt follows
  another without a delay; on Capterra that happens only after an attempt whose parser
  reported an error. An attempt below the third that parses zero records is followed by the
  next attempt, and when all three attempts parse zero records the empty result is accepted.
\<close>

lemma retry_loops_elsewhere:
  "(let tr = snd (first_page_attempts (g2_unit gfetch) 1 None) in
      attempt_count tr \<le> 3 \<and> undelayed tr = [] \<and> (\<forall>ms \<in> set (delays tr). ms = 5000)
      \<and> (\<forall>k<3. zero_records (g2_unit gfetch k) \<and> Attempt k \<in> set tr
             \<longrightarrow> Attempt (k + 1) \<in> set tr))
   \<and> (let tr = snd (first_page_attempts (capterra_unit cfetch) 1 None) in
      attempt_count tr \<le> 3
      \<and> (\<forall>k \<in> set (undelayed tr). capterra_unit cfetch k = Body ParseError)
      \<and> (\<forall>ms \<in> set (delays tr). ms = 5000)
      \<and> (\<forall>k<3. zero_records (capterra_unit cfetch k) \<and> Attempt k \<in> set tr
             \<longrightarrow> Attempt (k + 1) \<in> set tr))
   \<and> (let tr = snd (snd (tp_attempts (tfetch page) 1 None None)) in
      attempt_count tr \<le> 3 \<and> undelayed tr = [] \<and> (\<forall>ms \<in> set (delays tr). ms = 5000)
      \<and> (\<forall>k<3. zero_records (tp_unit_at tfetch page k) \<and> Attempt k \<in> set tr
             \<longrightarrow> Attempt (k + 1) \<in> set tr))
   \<and> (zero_records (g2_unit gfetch 1) \<and> zero_records (g2_unit gfetch 2)
        \<and> zero_records (g2_unit gfetch 3) \<longrightarrow>
       (\<exists>res. scrapeG2WithProxy h gfetch fetchPage jitter s e m =
           (Some res, [Attempt 1, Delay 5000, Attempt 2, Delay 5000, Attempt 3, Delay 5000])
         \<and> res_allReviews res = []))
   \<and> (zero_records (capterra_unit cfetch 1) \<and> zero_records (capterra_unit cfetch 2)
        \<and> zero_records (capterra_unit cfetch 3) \<longrightarrow>
       (\<exists>res. scrapeAndFilterReviews_Capterra h cfetch s e =
           (Some res, [Attempt 1, Delay 5000, Attempt 2, Delay 5000, Attempt 3, Delay 5000])
         \<and> res_allReviews res = []))
   \<and> (zero_records (tp_unit_at tfetch page 1) \<and> zero_records (tp_unit_at tfetch page 2)
        \<and> zero_records (tp_unit_at tfetch page 3) \<longrightarrow>
       tp_pages h tfetch s e page acc info = Some (page, Returned (tp_result info acc)))"
proof -
  have g: "let tr = snd (first_page_attempts (g2_unit gfetch) 1 None) in
      attempt_count tr \<le> 3 \<and> undelayed tr = [] \<and> (\<forall>ms \<in> set (delays tr). ms = 5000)
      \<and> (\<forall>k<3. zero_records (g2_unit gfetch k) \<and> Attempt k \<in> set tr
             \<longrightarrow> Attempt (k + 1) \<in> set tr)"
    unfolding Let_def
    using fpa_attempt_count g2_undelayed fpa_delays fpa_zero_retried by blast
  have c: "let tr = snd (first_page_attempts (capterra_unit cfetch) 1 None) in
      attempt_count tr \<le> 3
      \<and> (\<forall>k \<in> set (undelayed tr). capterra_unit cfetch k = Body ParseError)
      \<and> (\<forall>ms \<in> set (delays tr). ms = 5000)
      \<and> (\<forall>k<3. zero_records (capterra_unit cfetch k) \<and> Attempt k \<in> set tr
             \<longrightarrow> Attempt (k + 1) \<in> set tr)"
    unfolding Let_def
    using fpa_attempt_count fpa_undelayed fpa_delays fpa_zero_retried by blast
  have t: "let tr = snd (snd (tp_attempts (tfetch page) 1 None None)) in
      attempt_count tr \<le> 3 \<and> undelayed tr = [] \<and> (\<forall>ms \<in> set (delays tr). ms = 5000)
      \<and> (\<forall>k<3. zero_records (tp_unit_at tfetch page k) \<and> Attempt k \<in> set tr
             \<longrightarrow> Attempt (k + 1) \<in> set tr)"
    unfolding Let_def tp_unit_at_def
    using tp_attempt_count tp_undelayed tp_delays tp_zero_retried by blast
  show ?thesis
    using g c t g2_accepts_empty capterra_accepts_empty tp_accepts_empty by blast
qed


text \<open>
  C1. On Capterra the retry loop does not keep the fixed delay between attempts when the
  parser reports an error: the branch \<^verbatim>\<open>if (parsedResult.error) { ...; continue; }\<close> goes to the
  next attempt without \<^verbatim>\<open>await delay(5000)\<close>. With a relay error body, or a page on which the
  parser raises, as the first response and a page with a card as the second, the events of
  the run are the two attempts with nothing between them. The two other branches of the
  same loop do wait: after a rejected fetch, and after a page with no card, the delay of
  5000 ms stands between the two attempts.
\<close>

theorem C1_capterra_parse_error_no_delay:
  "scrapeAndFilterReviews_Capterra (utc_host 2024 2 15) relay_error_then_card
       ''2024-01-01'' ''2024-12-31''
     = (Some \<lparr> res_reviewSite = ''Capterra'', res_totalReviews = ''1'',
                 res_allReviews = [\<lparr> reviewerName = ''Al'', jobTitle = [],
                    reviewDate = ''2024-02-02'', stars = ''4.0'', reviewTitle = [],
                    content = ReviewText ''Nice'' \<rparr>],
                 res_totalScrapedReviews = 1 \<rparr>,
        [Attempt 1, Attempt 2])
   \<and> snd (scrapeAndFilterReviews_Capterra (utc_host 2024 2 15) raises_then_card
            ''2024-01-01'' ''2024-12-31'') = [Attempt 1, Attempt 2]
   \<and> snd (scrapeAndFilterReviews_Capterra (utc_host 2024 2 15) fetch_error_then_card
            ''2024-01-01'' ''2024-12-31'') = [Attempt 1, Delay 5000, Attempt 2]
   \<and> snd (scrapeAndFilterReviews_Capterra (utc_host 2024 2 15) no_card_then_card
            ''2024-01-01'' ''2024-12-31'') = [Attempt 1, Delay 5000, Attempt 2]"
  by code_simp

end
